theory Spec2Isabelle
  imports Main "HOL-Library.Word" "HOL-Library.Sublist"
begin

section \<open>Go values used by the controllers\<close>

text \<open>
  The controllers package of the Flink operator has two parts that are verified here:
  the converter (\<open>flinkcluster_converter.go\<close>), which computes the desired Kubernetes
  resources of a FlinkCluster, and the observer (\<open>flinkcluster_observer.go\<close>), which
  reads the live resources through the Kubernetes client.

  A Go pointer that may be \<open>nil\<close> is an \<open>option\<close>; dereferencing \<open>nil\<close>, an
  explicit \<open>panic\<close> and an index out of range abort the goroutine, which is the left
  summand of the result of every function that can do so.
\<close>

type_synonym int32 = "32 word"

datatype abort = NilPointerDereference | Panic string | IndexOutOfRange

definition deref :: "'a option \<Rightarrow> abort + 'a" where
  "deref p = (case p of None \<Rightarrow> Inl NilPointerDereference | Some v \<Rightarrow> Inr v)"

definition bind_abort :: "abort + 'a \<Rightarrow> ('a \<Rightarrow> abort + 'b) \<Rightarrow> abort + 'b" where
  "bind_abort m f = (case m of Inl e \<Rightarrow> Inl e | Inr x \<Rightarrow> f x)"

text \<open>\<open>xs[i]\<close> on a Go slice: a run-time panic when \<open>i\<close> is out of range.\<close>

definition index_at :: "'a list \<Rightarrow> int \<Rightarrow> abort + 'a" where
  "index_at xs i = (if 0 \<le> i \<and> i < int (length xs) then Inr (xs ! nat i) else Inl IndexOutOfRange)"

subsection \<open>Package strings and fmt\<close>

text \<open>\<open>strings.Contains(s, substr)\<close>: some suffix of \<open>s\<close> starts with \<open>substr\<close>.\<close>

fun strings_Contains :: "string \<Rightarrow> string \<Rightarrow> bool" where
  "strings_Contains [] substr = (substr = [])"
| "strings_Contains (c # cs) substr = (prefix substr (c # cs) \<or> strings_Contains cs substr)"

text \<open>
  \<open>strings.Split(s, sep)\<close> for a separator of one byte, the only form the converter
  calls (\<open>sep = "/"\<close>): the pieces of \<open>s\<close> between the separators, \<open>[""]\<close> for the
  empty string.
\<close>

fun strings_Split :: "string \<Rightarrow> char \<Rightarrow> string list" where
  "strings_Split [] sep = [[]]"
| "strings_Split (c # cs) sep =
     (if c = sep then [] # strings_Split cs sep
      else (c # hd (strings_Split cs sep)) # tl (strings_Split cs sep))"

text \<open>The verb \<open>%d\<close> of \<open>fmt.Sprintf\<close> and \<open>fmt.Sprint\<close> on an \<open>int32\<close>: signed decimal.\<close>

function show_nat :: "nat \<Rightarrow> string" where
  "show_nat n = (if n < 10 then [''0123456789'' ! n]
                 else show_nat (n div 10) @ [''0123456789'' ! (n mod 10)])"
  by pat_completeness auto
termination
  by (relation "measure id") auto

declare show_nat.simps [simp del]

definition show_int :: "int \<Rightarrow> string" where
  "show_int i = (if i < 0 then CHR ''-'' # show_nat (nat (- i)) else show_nat (nat i))"

definition Sprint_int32 :: "int32 \<Rightarrow> string" where
  "Sprint_int32 w = show_int (sint w)"

section \<open>Kubernetes API objects\<close>

text \<open>
  The fields of the \<open>k8s.io/api\<close> types that the controllers read or write. A value that
  is only passed through (resource requirements, volumes, mounts, pull secrets) is kept
  by its name. A Go map is a partial function; the \<open>nil\<close> map reads as the empty one.
  Every field a composite literal does not mention has its zero value.
\<close>

type_synonym ResourceRequirements = string
type_synonym Volume = string
type_synonym VolumeMount = string
type_synonym LocalObjectReference = string

datatype Quantity = MustParse string

datatype IntOrString = FromInt int32 | FromString string

record ResourceFieldSelector =
  rfs_ContainerName :: string
  rfs_Resource :: string
  rfs_Divisor :: Quantity

record EnvVarSource =
  evs_ResourceFieldRef :: "ResourceFieldSelector option"

record EnvVar =
  ev_Name :: string
  ev_Value :: string
  ev_ValueFrom :: "EnvVarSource option"

record ContainerPort =
  cp_Name :: string
  cp_ContainerPort :: int32

record ServicePort =
  sp_Name :: string
  sp_Port :: int32
  sp_TargetPort :: IntOrString

record Container =
  c_Name :: string
  c_Image :: string
  c_ImagePullPolicy :: string
  c_Args :: "string list"
  c_Ports :: "ContainerPort list"
  c_Resources :: ResourceRequirements
  c_Env :: "EnvVar list"
  c_VolumeMounts :: "VolumeMount list"

record OwnerReference =
  or_APIVersion :: string
  or_Kind :: string
  or_Name :: string
  or_UID :: string
  or_Controller :: "bool option"
  or_BlockOwnerDeletion :: "bool option"

record ObjectMeta =
  om_Namespace :: string
  om_Name :: string
  om_UID :: string
  om_OwnerReferences :: "OwnerReference list"
  om_Labels :: "string \<rightharpoonup> string"
  om_Annotations :: "string \<rightharpoonup> string"

record PodSpec =
  ps_Containers :: "Container list"
  ps_RestartPolicy :: string
  ps_Volumes :: "Volume list"
  ps_NodeSelector :: "string \<rightharpoonup> string"
  ps_ImagePullSecrets :: "LocalObjectReference list"

record PodTemplateSpec =
  pt_ObjectMeta :: ObjectMeta
  pt_Spec :: PodSpec

record LabelSelector =
  ls_MatchLabels :: "string \<rightharpoonup> string"

record DeploymentSpec =
  ds_Replicas :: "int32 option"
  ds_Selector :: "LabelSelector option"
  ds_Template :: PodTemplateSpec

record Deployment =
  d_ObjectMeta :: ObjectMeta
  d_Spec :: DeploymentSpec

record ServiceSpec =
  ss_Selector :: "string \<rightharpoonup> string"
  ss_Ports :: "ServicePort list"
  ss_Type :: string

record Service =
  s_ObjectMeta :: ObjectMeta
  s_Spec :: ServiceSpec

record BatchJobSpec =
  bj_Template :: PodTemplateSpec

record Job =
  j_ObjectMeta :: ObjectMeta
  j_Spec :: BatchJobSpec

record PodStatus =
  pst_Phase :: string

record Pod =
  p_ObjectMeta :: ObjectMeta
  p_Status :: PodStatus

definition zero_ObjectMeta :: ObjectMeta where
  "zero_ObjectMeta = \<lparr>om_Namespace = [], om_Name = [], om_UID = [], om_OwnerReferences = [],
     om_Labels = Map.empty, om_Annotations = Map.empty\<rparr>"

definition zero_Container :: Container where
  "zero_Container = \<lparr>c_Name = [], c_Image = [], c_ImagePullPolicy = [], c_Args = [],
     c_Ports = [], c_Resources = [], c_Env = [], c_VolumeMounts = []\<rparr>"

definition zero_PodSpec :: PodSpec where
  "zero_PodSpec = \<lparr>ps_Containers = [], ps_RestartPolicy = [], ps_Volumes = [],
     ps_NodeSelector = Map.empty, ps_ImagePullSecrets = []\<rparr>"

definition zero_ServiceSpec :: ServiceSpec where
  "zero_ServiceSpec = \<lparr>ss_Selector = Map.empty, ss_Ports = [], ss_Type = []\<rparr>"

definition ServiceTypeClusterIP :: string where
  "ServiceTypeClusterIP = ''ClusterIP''"

definition ServiceTypeLoadBalancer :: string where
  "ServiceTypeLoadBalancer = ''LoadBalancer''"

section \<open>The FlinkCluster custom resource\<close>

text \<open>
  Modelled from the spec: the types \<open>FlinkCluster\<close>, \<open>FlinkClusterSpec\<close>,
  \<open>FlinkClusterStatus\<close> and their parts, declared in package \<open>api/v1alpha1\<close>, which is
  not among the sources. The records hold the fields of the spec's ClusterSpec and
  ClusterStatus that the two controllers touch, under the names the controllers use, and
  with the types their uses fix: the ports, the job's class name, savepoint, flags,
  parallelism and restart policy are pointers (the code dereferences them), the specs of
  the two process kinds are structs, and the cluster state and the access scope are strings
  (the access scope is printed with \<open>%v\<close> and switched on with a default branch).
\<close>

record ImageSpec =
  img_Name :: string
  img_PullPolicy :: string
  img_PullSecrets :: "LocalObjectReference list"

record JobManagerPorts =
  jmp_RPC :: "int32 option"
  jmp_Blob :: "int32 option"
  jmp_Query :: "int32 option"
  jmp_UI :: "int32 option"

record JobManagerSpec =
  jm_Replicas :: "int32 option"
  jm_AccessScope :: string
  jm_Ports :: JobManagerPorts
  jm_Resources :: ResourceRequirements
  jm_Volumes :: "Volume list"
  jm_Mounts :: "VolumeMount list"
  jm_NodeSelector :: "string \<rightharpoonup> string"

record TaskManagerPorts =
  tmp_Data :: "int32 option"
  tmp_RPC :: "int32 option"
  tmp_Query :: "int32 option"

record TaskManagerSpec =
  tm_Replicas :: int32
  tm_Ports :: TaskManagerPorts
  tm_Resources :: ResourceRequirements
  tm_Sidecars :: "Container list"
  tm_Volumes :: "Volume list"
  tm_Mounts :: "VolumeMount list"
  tm_NodeSelector :: "string \<rightharpoonup> string"

record JobSpec =
  job_JarFile :: string
  job_ClassName :: "string option"
  job_Args :: "string list"
  job_Savepoint :: "string option"
  job_AllowNonRestoredState :: "bool option"
  job_Parallelism :: "int32 option"
  job_NoLoggingToStdout :: "bool option"
  job_Volumes :: "Volume list"
  job_Mounts :: "VolumeMount list"
  job_RestartPolicy :: "string option"

record FlinkClusterSpec =
  spec_ImageSpec :: ImageSpec
  spec_JobManagerSpec :: JobManagerSpec
  spec_TaskManagerSpec :: TaskManagerSpec
  spec_JobSpec :: "JobSpec option"
  spec_EnvVars :: "EnvVar list"
  spec_FlinkProperties :: "string \<rightharpoonup> string"

record ComponentJobStatus =
  cjs_ID :: string

record FlinkClusterComponentsStatus =
  comp_Job :: "ComponentJobStatus option"

record FlinkClusterStatus =
  status_State :: string
  status_Components :: FlinkClusterComponentsStatus

record FlinkCluster =
  APIVersion :: string
  Kind :: string
  ObjectMeta :: ObjectMeta
  Spec :: FlinkClusterSpec
  Status :: FlinkClusterStatus

text \<open>
  Modelled from the spec: the constants \<open>ClusterState.Stopping\<close>, \<open>ClusterState.Stopped\<close>
  and \<open>AccessScope.Cluster\<close>, \<open>AccessScope.VPC\<close>, \<open>AccessScope.External\<close> of package
  \<open>api/v1alpha1\<close>, which is not among the sources. The spec names the lifecycle phases
  Stopping and Stopped and the access scopes Cluster, VPC and External.
\<close>

definition ClusterState_Stopping :: string where
  "ClusterState_Stopping = ''Stopping''"

definition ClusterState_Stopped :: string where
  "ClusterState_Stopped = ''Stopped''"

definition AccessScope_Cluster :: string where
  "AccessScope_Cluster = ''Cluster''"

definition AccessScope_VPC :: string where
  "AccessScope_VPC = ''VPC''"

definition AccessScope_External :: string where
  "AccessScope_External = ''External''"

section \<open>The converter\<close>

record DesiredClusterState =
  JmDeployment :: "Deployment option"
  JmService :: "Service option"
  TmDeployment :: "Deployment option"
  Job :: "Job option"

definition getJobManagerDeploymentName :: "string \<Rightarrow> string" where
  "getJobManagerDeploymentName clusterName = clusterName @ ''-jobmanager''"

definition getJobManagerServiceName :: "string \<Rightarrow> string" where
  "getJobManagerServiceName clusterName = clusterName @ ''-jobmanager''"

definition getTaskManagerDeploymentName :: "string \<Rightarrow> string" where
  "getTaskManagerDeploymentName clusterName = clusterName @ ''-taskmanager''"

definition getJobName :: "string \<Rightarrow> string" where
  "getJobName clusterName = clusterName @ ''-job''"

definition toOwnerReference :: "FlinkCluster \<Rightarrow> OwnerReference" where
  "toOwnerReference flinkCluster =
     \<lparr>or_APIVersion = APIVersion flinkCluster,
      or_Kind = Kind flinkCluster,
      or_Name = om_Name (ObjectMeta flinkCluster),
      or_UID = om_UID (ObjectMeta flinkCluster),
      or_Controller = Some True,
      or_BlockOwnerDeletion = Some False\<rparr>"

subsection \<open>The properties blob\<close>

text \<open>
  \<open>getFlinkProperties\<close> ranges over a Go map. The language leaves the order of that
  iteration to the runtime, which picks one afresh for every loop: each key of the map
  is visited once, in some order. The order of one execution of the loop is the second
  argument; \<open>range_order\<close> says which orders the runtime may pick.
\<close>

definition range_order :: "(string \<rightharpoonup> string) \<Rightarrow> string list \<Rightarrow> bool" where
  "range_order m ks = (distinct ks \<and> set ks = dom m)"

definition property_line :: "(string \<rightharpoonup> string) \<Rightarrow> string \<Rightarrow> string" where
  "property_line properties key =
     (case properties key of
        None \<Rightarrow> []
      | Some v \<Rightarrow> key @ '': '' @ v @ [CHR 0x0A])"

definition getFlinkProperties :: "(string \<rightharpoonup> string) \<Rightarrow> string list \<Rightarrow> string" where
  "getFlinkProperties properties ks = concat (map (property_line properties) ks)"

subsection \<open>JobManager deployment\<close>

definition stopping_or_stopped :: "FlinkCluster \<Rightarrow> bool" where
  "stopping_or_stopped flinkCluster =
     (status_State (Status flinkCluster) = ClusterState_Stopping \<or>
      status_State (Status flinkCluster) = ClusterState_Stopped)"

definition limit_env :: "string \<Rightarrow> string \<Rightarrow> string \<Rightarrow> string \<Rightarrow> EnvVar" where
  "limit_env name container res divisor =
     \<lparr>ev_Name = name, ev_Value = [],
      ev_ValueFrom = Some \<lparr>evs_ResourceFieldRef = Some
        \<lparr>rfs_ContainerName = container, rfs_Resource = res,
         rfs_Divisor = MustParse divisor\<rparr>\<rparr>\<rparr>"

definition plain_env :: "string \<Rightarrow> string \<Rightarrow> EnvVar" where
  "plain_env name v = \<lparr>ev_Name = name, ev_Value = v, ev_ValueFrom = None\<rparr>"

definition getDesiredJobManagerDeployment ::
  "string list \<Rightarrow> FlinkCluster \<Rightarrow> abort + Deployment option" where
  "getDesiredJobManagerDeployment ks flinkCluster =
    (if stopping_or_stopped flinkCluster then Inr None
     else
       let clusterNamespace = om_Namespace (ObjectMeta flinkCluster);
           clusterName = om_Name (ObjectMeta flinkCluster);
           imageSpec = spec_ImageSpec (Spec flinkCluster);
           jobManagerSpec = spec_JobManagerSpec (Spec flinkCluster)
       in
       bind_abort (deref (jmp_RPC (jm_Ports jobManagerSpec))) (\<lambda>rpc.
       bind_abort (deref (jmp_Blob (jm_Ports jobManagerSpec))) (\<lambda>blob.
       bind_abort (deref (jmp_Query (jm_Ports jobManagerSpec))) (\<lambda>query.
       bind_abort (deref (jmp_UI (jm_Ports jobManagerSpec))) (\<lambda>ui.
       let rpcPort = \<lparr>cp_Name = ''rpc'', cp_ContainerPort = rpc\<rparr>;
           blobPort = \<lparr>cp_Name = ''blob'', cp_ContainerPort = blob\<rparr>;
           queryPort = \<lparr>cp_Name = ''query'', cp_ContainerPort = query\<rparr>;
           uiPort = \<lparr>cp_Name = ''ui'', cp_ContainerPort = ui\<rparr>;
           jobManagerDeploymentName = getJobManagerDeploymentName clusterName;
           labels = [''cluster'' \<mapsto> clusterName, ''app'' \<mapsto> ''flink'',
                     ''component'' \<mapsto> ''jobmanager''];
           envVars =
             [plain_env ''JOB_MANAGER_RPC_ADDRESS'' jobManagerDeploymentName,
              limit_env ''JOB_MANAGER_CPU_LIMIT'' ''jobmanager'' ''limits.cpu'' ''1m'',
              limit_env ''JOB_MANAGER_MEMORY_LIMIT'' ''jobmanager'' ''limits.memory'' ''1Mi'',
              plain_env ''FLINK_PROPERTIES''
                (getFlinkProperties (spec_FlinkProperties (Spec flinkCluster)) ks)]
             @ spec_EnvVars (Spec flinkCluster)
       in Inr (Some
         \<lparr>d_ObjectMeta = zero_ObjectMeta
            \<lparr>om_Namespace := clusterNamespace,
             om_Name := jobManagerDeploymentName,
             om_OwnerReferences := [toOwnerReference flinkCluster],
             om_Labels := labels\<rparr>,
          d_Spec =
            \<lparr>ds_Replicas = jm_Replicas jobManagerSpec,
             ds_Selector = Some \<lparr>ls_MatchLabels = labels\<rparr>,
             ds_Template =
               \<lparr>pt_ObjectMeta = zero_ObjectMeta\<lparr>om_Labels := labels\<rparr>,
                pt_Spec = zero_PodSpec
                  \<lparr>ps_Containers :=
                     [zero_Container
                        \<lparr>c_Name := ''jobmanager'',
                         c_Image := img_Name imageSpec,
                         c_ImagePullPolicy := img_PullPolicy imageSpec,
                         c_Args := [''jobmanager''],
                         c_Ports := [rpcPort, blobPort, queryPort, uiPort],
                         c_Resources := jm_Resources jobManagerSpec,
                         c_Env := envVars,
                         c_VolumeMounts := jm_Mounts jobManagerSpec\<rparr>],
                   ps_Volumes := jm_Volumes jobManagerSpec,
                   ps_NodeSelector := jm_NodeSelector jobManagerSpec,
                   ps_ImagePullSecrets := img_PullSecrets imageSpec\<rparr>\<rparr>\<rparr>\<rparr>))))))"

subsection \<open>JobManager service\<close>

definition getDesiredJobManagerService :: "FlinkCluster \<Rightarrow> abort + Service option" where
  "getDesiredJobManagerService flinkCluster =
    (if stopping_or_stopped flinkCluster then Inr None
     else
       let clusterNamespace = om_Namespace (ObjectMeta flinkCluster);
           clusterName = om_Name (ObjectMeta flinkCluster);
           jobManagerSpec = spec_JobManagerSpec (Spec flinkCluster)
       in
       bind_abort (deref (jmp_RPC (jm_Ports jobManagerSpec))) (\<lambda>rpc.
       bind_abort (deref (jmp_Blob (jm_Ports jobManagerSpec))) (\<lambda>blob.
       bind_abort (deref (jmp_Query (jm_Ports jobManagerSpec))) (\<lambda>query.
       bind_abort (deref (jmp_UI (jm_Ports jobManagerSpec))) (\<lambda>ui.
       let rpcPort = \<lparr>sp_Name = ''rpc'', sp_Port = rpc, sp_TargetPort = FromString ''rpc''\<rparr>;
           blobPort = \<lparr>sp_Name = ''blob'', sp_Port = blob, sp_TargetPort = FromString ''blob''\<rparr>;
           queryPort = \<lparr>sp_Name = ''query'', sp_Port = query, sp_TargetPort = FromString ''query''\<rparr>;
           uiPort = \<lparr>sp_Name = ''ui'', sp_Port = ui, sp_TargetPort = FromString ''ui''\<rparr>;
           jobManagerServiceName = getJobManagerServiceName clusterName;
           labels = [''cluster'' \<mapsto> clusterName, ''app'' \<mapsto> ''flink'',
                     ''component'' \<mapsto> ''jobmanager''];
           jobManagerService =
             \<lparr>s_ObjectMeta = zero_ObjectMeta
                \<lparr>om_Namespace := clusterNamespace,
                 om_Name := jobManagerServiceName,
                 om_OwnerReferences := [toOwnerReference flinkCluster],
                 om_Labels := labels\<rparr>,
              s_Spec = zero_ServiceSpec
                \<lparr>ss_Selector := labels,
                 ss_Ports := [rpcPort, blobPort, queryPort, uiPort]\<rparr>\<rparr>
       in
       if jm_AccessScope jobManagerSpec = AccessScope_Cluster then
         Inr (Some (jobManagerService
           \<lparr>s_Spec := (s_Spec jobManagerService)\<lparr>ss_Type := ServiceTypeClusterIP\<rparr>\<rparr>))
       else if jm_AccessScope jobManagerSpec = AccessScope_VPC then
         Inr (Some (jobManagerService
           \<lparr>s_Spec := (s_Spec jobManagerService)\<lparr>ss_Type := ServiceTypeLoadBalancer\<rparr>,
            s_ObjectMeta := (s_ObjectMeta jobManagerService)
              \<lparr>om_Annotations := [''cloud.google.com/load-balancer-type'' \<mapsto> ''Internal'']\<rparr>\<rparr>))
       else if jm_AccessScope jobManagerSpec = AccessScope_External then
         Inr (Some (jobManagerService
           \<lparr>s_Spec := (s_Spec jobManagerService)\<lparr>ss_Type := ServiceTypeLoadBalancer\<rparr>\<rparr>))
       else
         Inl (Panic (''Unknown service access cope: '' @ jm_AccessScope jobManagerSpec)))))))"

subsection \<open>TaskManager deployment\<close>

definition getDesiredTaskManagerDeployment ::
  "string list \<Rightarrow> FlinkCluster \<Rightarrow> abort + Deployment option" where
  "getDesiredTaskManagerDeployment ks flinkCluster =
    (if stopping_or_stopped flinkCluster then Inr None
     else
       let clusterNamespace = om_Namespace (ObjectMeta flinkCluster);
           clusterName = om_Name (ObjectMeta flinkCluster);
           imageSpec = spec_ImageSpec (Spec flinkCluster);
           taskManagerSpec = spec_TaskManagerSpec (Spec flinkCluster)
       in
       bind_abort (deref (tmp_Data (tm_Ports taskManagerSpec))) (\<lambda>data.
       bind_abort (deref (tmp_RPC (tm_Ports taskManagerSpec))) (\<lambda>rpc.
       bind_abort (deref (tmp_Query (tm_Ports taskManagerSpec))) (\<lambda>query.
       let dataPort = \<lparr>cp_Name = ''data'', cp_ContainerPort = data\<rparr>;
           rpcPort = \<lparr>cp_Name = ''rpc'', cp_ContainerPort = rpc\<rparr>;
           queryPort = \<lparr>cp_Name = ''query'', cp_ContainerPort = query\<rparr>;
           taskManagerDeploymentName = getTaskManagerDeploymentName clusterName;
           jobManagerDeploymentName = getJobManagerDeploymentName clusterName;
           labels = [''cluster'' \<mapsto> clusterName, ''app'' \<mapsto> ''flink'',
                     ''component'' \<mapsto> ''taskmanager''];
           envVars =
             [plain_env ''JOB_MANAGER_RPC_ADDRESS'' jobManagerDeploymentName,
              limit_env ''TASK_MANAGER_CPU_LIMIT'' ''taskmanager'' ''limits.cpu'' ''1m'',
              limit_env ''TASK_MANAGER_MEMORY_LIMIT'' ''taskmanager'' ''limits.memory'' ''1Mi'',
              plain_env ''FLINK_PROPERTIES''
                (getFlinkProperties (spec_FlinkProperties (Spec flinkCluster)) ks)]
             @ spec_EnvVars (Spec flinkCluster);
           containers =
             [zero_Container
                \<lparr>c_Name := ''taskmanager'',
                 c_Image := img_Name imageSpec,
                 c_ImagePullPolicy := img_PullPolicy imageSpec,
                 c_Args := [''taskmanager''],
                 c_Ports := [dataPort, rpcPort, queryPort],
                 c_Resources := tm_Resources taskManagerSpec,
                 c_Env := envVars,
                 c_VolumeMounts := tm_Mounts taskManagerSpec\<rparr>]
             @ tm_Sidecars taskManagerSpec
       in Inr (Some
         \<lparr>d_ObjectMeta = zero_ObjectMeta
            \<lparr>om_Namespace := clusterNamespace,
             om_Name := taskManagerDeploymentName,
             om_OwnerReferences := [toOwnerReference flinkCluster],
             om_Labels := labels\<rparr>,
          d_Spec =
            \<lparr>ds_Replicas = Some (tm_Replicas taskManagerSpec),
             ds_Selector = Some \<lparr>ls_MatchLabels = labels\<rparr>,
             ds_Template =
               \<lparr>pt_ObjectMeta = zero_ObjectMeta\<lparr>om_Labels := labels\<rparr>,
                pt_Spec = zero_PodSpec
                  \<lparr>ps_Containers := containers,
                   ps_Volumes := tm_Volumes taskManagerSpec,
                   ps_NodeSelector := tm_NodeSelector taskManagerSpec,
                   ps_ImagePullSecrets := img_PullSecrets imageSpec\<rparr>\<rparr>\<rparr>\<rparr>)))))"

subsection \<open>Job\<close>

text \<open>
  Each conditional \<open>append\<close> to \<open>jobArgs\<close> appends the new arguments when its condition
  holds and nothing otherwise.
\<close>

definition getDesiredJob :: "FlinkCluster \<Rightarrow> abort + Job option" where
  "getDesiredJob flinkCluster =
    (case spec_JobSpec (Spec flinkCluster) of
       None \<Rightarrow> Inr None
     | Some jobSpec \<Rightarrow>
       let imageSpec = spec_ImageSpec (Spec flinkCluster);
           jobManagerSpec = spec_JobManagerSpec (Spec flinkCluster);
           clusterNamespace = om_Namespace (ObjectMeta flinkCluster);
           clusterName = om_Name (ObjectMeta flinkCluster);
           jobName = getJobName clusterName;
           jobManagerServiceName = clusterName @ ''-jobmanager''
       in
       bind_abort (deref (jmp_UI (jm_Ports jobManagerSpec))) (\<lambda>ui.
       let jobManagerAddress = jobManagerServiceName @ '':'' @ Sprint_int32 ui;
           labels = [''cluster'' \<mapsto> clusterName, ''app'' \<mapsto> ''flink''];
           jobArgs0 = [''./bin/flink'', ''run''];
           jobArgs1 = jobArgs0 @ [''--jobmanager'', jobManagerAddress];
           jobArgs2 = jobArgs1 @ (case job_ClassName jobSpec of
                                    Some className \<Rightarrow> [''--class'', className]
                                  | None \<Rightarrow> []);
           jobArgs3 = jobArgs2 @ (case job_Savepoint jobSpec of
                                    Some savepoint \<Rightarrow> [''--fromSavepoint'', savepoint]
                                  | None \<Rightarrow> []);
           jobArgs4 = jobArgs3 @ (if job_AllowNonRestoredState jobSpec = Some True
                                  then [''--allowNonRestoredState''] else []);
           jobArgs5 = jobArgs4 @ (case job_Parallelism jobSpec of
                                    Some parallelism \<Rightarrow> [''--parallelism'', Sprint_int32 parallelism]
                                  | None \<Rightarrow> []);
           jobArgs6 = jobArgs5 @ (if job_NoLoggingToStdout jobSpec = Some True
                                  then [''--sysoutLogging''] else []);
           envVars0 = [] @ spec_EnvVars (Spec flinkCluster)
       in
       bind_abort
         (if strings_Contains (job_JarFile jobSpec) ''://'' then
            let parts = strings_Split (job_JarFile jobSpec) (CHR ''/'') in
            bind_abort (index_at parts (int (length parts) - 1)) (\<lambda>lastPart.
              Inr (''/opt/flink/job/'' @ lastPart,
                   envVars0 @ [plain_env ''FLINK_JOB_JAR_URI'' (job_JarFile jobSpec)]))
          else Inr (job_JarFile jobSpec, envVars0))
         (\<lambda>(jarPath, envVars).
       let jobArgs = (jobArgs6 @ [jarPath]) @ job_Args jobSpec in
       bind_abort (deref (job_RestartPolicy jobSpec)) (\<lambda>restartPolicy.
       Inr (Some
         \<lparr>j_ObjectMeta = zero_ObjectMeta
            \<lparr>om_Namespace := clusterNamespace,
             om_Name := jobName,
             om_OwnerReferences := [toOwnerReference flinkCluster],
             om_Labels := labels\<rparr>,
          j_Spec =
            \<lparr>bj_Template =
               \<lparr>pt_ObjectMeta = zero_ObjectMeta\<lparr>om_Labels := labels\<rparr>,
                pt_Spec = zero_PodSpec
                  \<lparr>ps_Containers :=
                     [zero_Container
                        \<lparr>c_Name := ''main'',
                         c_Image := img_Name imageSpec,
                         c_ImagePullPolicy := img_PullPolicy imageSpec,
                         c_Args := jobArgs,
                         c_Env := envVars,
                         c_VolumeMounts := job_Mounts jobSpec\<rparr>],
                   ps_RestartPolicy := restartPolicy,
                   ps_Volumes := job_Volumes jobSpec,
                   ps_ImagePullSecrets := img_PullSecrets imageSpec\<rparr>\<rparr>\<rparr>\<rparr>)))))"

subsection \<open>The desired state of a cluster\<close>

text \<open>
  The four fields of the result are computed in the order of the composite literal. The
  two deployments each run the loop of \<open>getFlinkProperties\<close> once; \<open>jmOrder\<close> and
  \<open>tmOrder\<close> are the iteration orders of these two executions.
\<close>

definition getDesiredClusterState ::
  "string list \<Rightarrow> string list \<Rightarrow> FlinkCluster option \<Rightarrow> abort + DesiredClusterState" where
  "getDesiredClusterState jmOrder tmOrder cluster =
    (case cluster of
       None \<Rightarrow> Inr \<lparr>JmDeployment = None, JmService = None, TmDeployment = None, Job = None\<rparr>
     | Some c \<Rightarrow>
       bind_abort (getDesiredJobManagerDeployment jmOrder c) (\<lambda>jmDeployment.
       bind_abort (getDesiredJobManagerService c) (\<lambda>jmService.
       bind_abort (getDesiredTaskManagerDeployment tmOrder c) (\<lambda>tmDeployment.
       bind_abort (getDesiredJob c) (\<lambda>job.
       Inr \<lparr>JmDeployment = jmDeployment, JmService = jmService,
            TmDeployment = tmDeployment, Job = job\<rparr>)))))"

section \<open>The observer\<close>

text \<open>
  The observer reads through two interfaces that lie outside the repository: the
  Kubernetes client (\<open>Get\<close> by namespace and name, \<open>List\<close> by namespace and labels) and
  the HTTP endpoint of the JobManager. Both are parameters. An \<open>error\<close> is what such a
  call may return; \<open>StatusNotFound\<close> is the one \<open>client.IgnoreNotFound\<close> recognises.
  The error built by \<open>fmt.Errorf\<close> for several job pods is \<open>MoreThanOneJobPod\<close> (its
  text holds the address of the slice, which has no counterpart here). Log output has
  no effect on the control flow and is left out.
\<close>

datatype error = StatusNotFound | StatusOther string | MoreThanOneJobPod

definition IgnoreNotFound :: "error \<Rightarrow> error option" where
  "IgnoreNotFound err = (if err = StatusNotFound then None else Some err)"

record Client =
  get_FlinkCluster :: "string \<times> string \<Rightarrow> error + FlinkCluster"
  get_Deployment :: "string \<times> string \<Rightarrow> error + Deployment"
  get_Service :: "string \<times> string \<Rightarrow> error + Service"
  get_Job :: "string \<times> string \<Rightarrow> error + Job"
  list_Pods :: "string \<Rightarrow> (string \<rightharpoonup> string) \<Rightarrow> error + Pod list"

record FlinkJobStatus =
  fjs_ID :: string
  fjs_Status :: string

text \<open>
  \<open>http_NewRequest url\<close>: whether \<open>http.NewRequest\<close> accepts the URL;
  \<open>http_Do url\<close>: the body of the response to the GET request, or the error of
  \<open>client.Do\<close> or of reading the body; \<open>json_Unmarshal body\<close>: the job list
  \<open>json.Unmarshal\<close> leaves in the \<open>_JobStatusList\<close> (its error is ignored by the code).
\<close>

record Http =
  http_NewRequest :: "string \<Rightarrow> bool"
  http_Do :: "string \<Rightarrow> error + string"
  json_Unmarshal :: "string \<Rightarrow> FlinkJobStatus list"

record Request =
  req_Namespace :: string
  req_Name :: string

record ClusterStateObserver =
  k8sClient :: Client
  request :: Request
  http :: Http

record ObservedClusterState =
  cluster :: "FlinkCluster option"
  jmDeployment :: "Deployment option"
  jmService :: "Service option"
  tmDeployment :: "Deployment option"
  job :: "Job option"
  jobPod :: "Pod option"
  flinkJobID :: "string option"

definition zero_ObservedClusterState :: ObservedClusterState where
  "zero_ObservedClusterState =
     \<lparr>cluster = None, jmDeployment = None, jmService = None, tmDeployment = None,
      job = None, jobPod = None, flinkJobID = None\<rparr>"

text \<open>
  What one call of \<open>observe\<close> leaves behind: how it ended (it returned an error value,
  \<open>None\<close> for \<open>nil\<close>, or it aborted), the observed state it wrote through the pointer,
  and the calls it made to the two outside interfaces, in order.
\<close>

datatype call =
  GetCluster | GetJobManagerDeployment | GetJobManagerService | GetTaskManagerDeployment
| GetJobResource | ListJobPods | GetFlinkJobID string

datatype outcome = Returned "error option" | Aborted abort

record Observation =
  outcome :: outcome
  observed :: ObservedClusterState
  calls :: "call list"

definition observeCluster :: "ClusterStateObserver \<Rightarrow> error + FlinkCluster" where
  "observeCluster observer =
     get_FlinkCluster (k8sClient observer)
       (req_Namespace (request observer), req_Name (request observer))"

definition observeDeployment ::
  "ClusterStateObserver \<Rightarrow> string \<Rightarrow> string \<Rightarrow> string \<Rightarrow> error + Deployment" where
  "observeDeployment observer namespace name component =
     get_Deployment (k8sClient observer) (namespace, name)"

definition observeJobManagerDeployment :: "ClusterStateObserver \<Rightarrow> error + Deployment" where
  "observeJobManagerDeployment observer =
     observeDeployment observer (req_Namespace (request observer))
       (getJobManagerDeploymentName (req_Name (request observer))) ''JobManager''"

definition observeTaskManagerDeployment :: "ClusterStateObserver \<Rightarrow> error + Deployment" where
  "observeTaskManagerDeployment observer =
     observeDeployment observer (req_Namespace (request observer))
       (getTaskManagerDeploymentName (req_Name (request observer))) ''TaskManager''"

definition observeJobManagerService :: "ClusterStateObserver \<Rightarrow> error + Service" where
  "observeJobManagerService observer =
     get_Service (k8sClient observer)
       (req_Namespace (request observer), getJobManagerServiceName (req_Name (request observer)))"

definition observeJobResource :: "ClusterStateObserver \<Rightarrow> error + Job" where
  "observeJobResource observer =
     get_Job (k8sClient observer)
       (req_Namespace (request observer), getJobName (req_Name (request observer)))"

definition observeJobPods :: "ClusterStateObserver \<Rightarrow> error + Pod list" where
  "observeJobPods observer =
     (let clusterName = req_Name (request observer);
          jobName = getJobName (req_Name (request observer))
      in list_Pods (k8sClient observer) (req_Namespace (request observer))
           [''app'' \<mapsto> ''flink'', ''cluster'' \<mapsto> clusterName, ''job-name'' \<mapsto> jobName])"

text \<open>
  \<open>getFlinkJobID\<close> drops the error of \<open>http.NewRequest\<close> and sets headers on the
  request, which is \<open>nil\<close> when the URL was refused.
\<close>

definition getFlinkJobID :: "ClusterStateObserver \<Rightarrow> string \<Rightarrow> abort + string option" where
  "getFlinkJobID observer url =
     (if \<not> http_NewRequest (http observer) url then Inl NilPointerDereference
      else case http_Do (http observer) url of
             Inl err \<Rightarrow> Inr None
           | Inr body \<Rightarrow>
               (case json_Unmarshal (http observer) body of
                  [] \<Rightarrow> Inr None
                | j # _ \<Rightarrow> Inr (Some (fjs_ID j))))"

text \<open>
  Every lookup of the observer is followed by the same three-way branch: an error that
  \<open>IgnoreNotFound\<close> keeps is returned, a not-found error leaves the field as it is, and
  a result is stored. \<open>lookup\<close> gives the first case as \<open>Inl\<close> and the other two as
  \<open>Inr None\<close> and \<open>Inr (Some _)\<close>.
\<close>

definition lookup :: "error + 'a \<Rightarrow> error + 'a option" where
  "lookup r =
     (case r of
        Inl err \<Rightarrow> (case IgnoreNotFound err of Some e \<Rightarrow> Inl e | None \<Rightarrow> Inr None)
      | Inr x \<Rightarrow> Inr (Some x))"

definition PodPending :: string where
  "PodPending = ''Pending''"

definition PodUnknown :: string where
  "PodUnknown = ''Unknown''"

text \<open>
  The last part of \<open>observeJob\<close>, under its comment \<open>Flink job ID\<close>: it runs once the
  job resource and the job pods have been looked up. \<open>observedJob\<close> is the local variable
  of that name, \<open>None\<close> when the job resource was not found.
\<close>

definition observeFlinkJobID ::
  "ClusterStateObserver \<Rightarrow> FlinkCluster \<Rightarrow> Job option \<Rightarrow> ObservedClusterState \<Rightarrow> call list \<Rightarrow>
   Observation" where
  "observeFlinkJobID observer observedCluster observedJob observedState cs =
    (let observedJobStatus = comp_Job (status_Components (Status observedCluster)) in
    if (case observedJobStatus of None \<Rightarrow> False | Some js \<Rightarrow> length (cjs_ID js) > 0)
    then \<lparr>outcome = Returned None,
          observed = observedState\<lparr>flinkJobID := map_option cjs_ID observedJobStatus\<rparr>,
          calls = cs\<rparr>
    else
    let isJobCreated =
          (observedJob \<noteq> None \<and>
           (case jobPod observedState of
              None \<Rightarrow> False
            | Some pod \<Rightarrow> pst_Phase (p_Status pod) \<noteq> PodPending \<and>
                          pst_Phase (p_Status pod) \<noteq> PodUnknown))
    in
    (case jmService observedState of
       None \<Rightarrow> \<lparr>outcome = Returned None, observed = observedState, calls = cs\<rparr>
     | Some service \<Rightarrow>
    if \<not> isJobCreated
    then \<lparr>outcome = Returned None, observed = observedState, calls = cs\<rparr>
    else
    (case deref (jmp_UI (jm_Ports (spec_JobManagerSpec (Spec observedCluster)))) of
       Inl a \<Rightarrow> \<lparr>outcome = Aborted a, observed = observedState, calls = cs\<rparr>
     | Inr ui \<Rightarrow>
    let url = ''http://'' @ om_Name (s_ObjectMeta service) @ ''.'' @
              om_Namespace (s_ObjectMeta service) @ ''.svc.cluster.local:'' @
              Sprint_int32 ui @ ''/jobs'';
        cs' = cs @ [GetFlinkJobID url]
    in
    (case getFlinkJobID observer url of
       Inl a \<Rightarrow> \<lparr>outcome = Aborted a, observed = observedState, calls = cs'\<rparr>
     | Inr None \<Rightarrow> \<lparr>outcome = Returned None, observed = observedState, calls = cs'\<rparr>
     | Inr (Some flinkJobID') \<Rightarrow>
         \<lparr>outcome = Returned None, observed = observedState\<lparr>flinkJobID := Some flinkJobID'\<rparr>,
          calls = cs'\<rparr>))))"

definition observeJob ::
  "ClusterStateObserver \<Rightarrow> ObservedClusterState \<Rightarrow> call list \<Rightarrow> Observation" where
  "observeJob observer observedState cs =
    (case cluster observedState of
       None \<Rightarrow> \<lparr>outcome = Returned None, observed = observedState, calls = cs\<rparr>
     | Some observedCluster \<Rightarrow>
    if spec_JobSpec (Spec observedCluster) = None
    then \<lparr>outcome = Returned None, observed = observedState, calls = cs\<rparr>
    else
    (case lookup (observeJobResource observer) of
       Inl err \<Rightarrow> \<lparr>outcome = Returned (Some err), observed = observedState,
                   calls = cs @ [GetJobResource]\<rparr>
     | Inr observedJob \<Rightarrow>
    let s1 = (case observedJob of None \<Rightarrow> observedState
              | Some j \<Rightarrow> observedState\<lparr>job := Some j\<rparr>);
        cs1 = cs @ [GetJobResource, ListJobPods]
    in
    (case lookup (observeJobPods observer) of
       Inl err \<Rightarrow> \<lparr>outcome = Returned (Some err), observed = s1, calls = cs1\<rparr>
     | Inr observedJobPods \<Rightarrow>
    let items = (case observedJobPods of None \<Rightarrow> [] | Some l \<Rightarrow> l) in
    if length items > 1
    then \<lparr>outcome = Returned (Some MoreThanOneJobPod), observed = s1, calls = cs1\<rparr>
    else
    let s2 = (if length items = 1 then s1\<lparr>jobPod := Some (items ! 0)\<rparr> else s1) in
    observeFlinkJobID observer observedCluster observedJob s2 cs1)))"

text \<open>
  \<open>observe\<close> writes into the state its caller passes; the fields of a lookup that found
  nothing keep the value they had.
\<close>

definition observe :: "ClusterStateObserver \<Rightarrow> ObservedClusterState \<Rightarrow> Observation" where
  "observe observer observedState =
    (case lookup (observeCluster observer) of
       Inl err \<Rightarrow> \<lparr>outcome = Returned (Some err), observed = observedState,
                   calls = [GetCluster]\<rparr>
     | Inr observedCluster \<Rightarrow>
    let s1 = (case observedCluster of None \<Rightarrow> observedState
              | Some c \<Rightarrow> observedState\<lparr>cluster := Some c\<rparr>)
    in
    (case lookup (observeJobManagerDeployment observer) of
       Inl err \<Rightarrow> \<lparr>outcome = Returned (Some err), observed = s1,
                   calls = [GetCluster, GetJobManagerDeployment]\<rparr>
     | Inr observedJmDeployment \<Rightarrow>
    let s2 = (case observedJmDeployment of None \<Rightarrow> s1
              | Some d \<Rightarrow> s1\<lparr>jmDeployment := Some d\<rparr>)
    in
    (case lookup (observeJobManagerService observer) of
       Inl err \<Rightarrow> \<lparr>outcome = Returned (Some err), observed = s2,
                   calls = [GetCluster, GetJobManagerDeployment, GetJobManagerService]\<rparr>
     | Inr observedJmService \<Rightarrow>
    let s3 = (case observedJmService of None \<Rightarrow> s2
              | Some sv \<Rightarrow> s2\<lparr>jmService := Some sv\<rparr>)
    in
    (case lookup (observeTaskManagerDeployment observer) of
       Inl err \<Rightarrow> \<lparr>outcome = Returned (Some err), observed = s3,
                   calls = [GetCluster, GetJobManagerDeployment, GetJobManagerService,
                            GetTaskManagerDeployment]\<rparr>
     | Inr observedTmDeployment \<Rightarrow>
    let s4 = (case observedTmDeployment of None \<Rightarrow> s3
              | Some d \<Rightarrow> s3\<lparr>tmDeployment := Some d\<rparr>)
    in
    observeJob observer s4
      [GetCluster, GetJobManagerDeployment, GetJobManagerService,
       GetTaskManagerDeployment]))))"

section \<open>Sample inputs\<close>

text \<open>
  The job cluster of the repository's sample manifest (\<open>flinkjobcluster-sample\<close>): the
  fields the manifest gives, and the ports, the access scope and the restart policy, which
  it leaves out, filled in.
\<close>

definition sample_job :: JobSpec where
  "sample_job =
     \<lparr>job_JarFile = ''./examples/batch/WordCount.jar'',
      job_ClassName = Some ''org.apache.flink.examples.java.wordcount.WordCount'',
      job_Args = [''--input'', ''./README.txt''],
      job_Savepoint = None,
      job_AllowNonRestoredState = None,
      job_Parallelism = Some 2,
      job_NoLoggingToStdout = None,
      job_Volumes = [],
      job_Mounts = [],
      job_RestartPolicy = Some ''OnFailure''\<rparr>"

definition sample_spec :: FlinkClusterSpec where
  "sample_spec =
     \<lparr>spec_ImageSpec = \<lparr>img_Name = ''flink:1.8.1'', img_PullPolicy = [], img_PullSecrets = []\<rparr>,
      spec_JobManagerSpec =
        \<lparr>jm_Replicas = Some 1, jm_AccessScope = ''Cluster'',
         jm_Ports = \<lparr>jmp_RPC = Some 6123, jmp_Blob = Some 6124, jmp_Query = Some 6125,
                     jmp_UI = Some 8081\<rparr>,
         jm_Resources = [], jm_Volumes = [], jm_Mounts = [], jm_NodeSelector = Map.empty\<rparr>,
      spec_TaskManagerSpec =
        \<lparr>tm_Replicas = 2,
         tm_Ports = \<lparr>tmp_Data = Some 6121, tmp_RPC = Some 6122, tmp_Query = Some 6125\<rparr>,
         tm_Resources = [], tm_Sidecars = [], tm_Volumes = [], tm_Mounts = [],
         tm_NodeSelector = Map.empty\<rparr>,
      spec_JobSpec = Some sample_job,
      spec_EnvVars = [],
      spec_FlinkProperties = [''taskmanager.numberOfTaskSlots'' \<mapsto> ''1'']\<rparr>"

definition sample_cluster :: FlinkCluster where
  "sample_cluster =
     \<lparr>APIVersion = ''flinkoperator.k8s.io/v1alpha1'',
      Kind = ''FlinkCluster'',
      ObjectMeta = zero_ObjectMeta\<lparr>om_Namespace := ''default'', om_Name := ''flinkjobcluster-sample''\<rparr>,
      Spec = sample_spec,
      Status = \<lparr>status_State = ''Running'',
                status_Components = \<lparr>comp_Job = None\<rparr>\<rparr>\<rparr>"

text \<open>The same cluster with another access scope, and in another lifecycle phase.\<close>

definition with_scope :: "string \<Rightarrow> FlinkCluster \<Rightarrow> FlinkCluster" where
  "with_scope scope c =
     c\<lparr>Spec := (Spec c)\<lparr>spec_JobManagerSpec :=
          (spec_JobManagerSpec (Spec c))\<lparr>jm_AccessScope := scope\<rparr>\<rparr>\<rparr>"

definition with_state :: "string \<Rightarrow> FlinkCluster \<Rightarrow> FlinkCluster" where
  "with_state st c = c\<lparr>Status := (Status c)\<lparr>status_State := st\<rparr>\<rparr>"

definition two_properties :: "string \<rightharpoonup> string" where
  "two_properties = [''taskmanager.numberOfTaskSlots'' \<mapsto> ''1'', ''jobmanager.heap.size'' \<mapsto> ''1024m'']"

definition with_properties :: "(string \<rightharpoonup> string) \<Rightarrow> FlinkCluster \<Rightarrow> FlinkCluster" where
  "with_properties m c = c\<lparr>Spec := (Spec c)\<lparr>spec_FlinkProperties := m\<rparr>\<rparr>"

definition with_job :: "JobSpec option \<Rightarrow> FlinkCluster \<Rightarrow> FlinkCluster" where
  "with_job j c = c\<lparr>Spec := (Spec c)\<lparr>spec_JobSpec := j\<rparr>\<rparr>"

definition with_jm_ports :: "JobManagerPorts \<Rightarrow> FlinkCluster \<Rightarrow> FlinkCluster" where
  "with_jm_ports ports c =
     c\<lparr>Spec := (Spec c)\<lparr>spec_JobManagerSpec :=
          (spec_JobManagerSpec (Spec c))\<lparr>jm_Ports := ports\<rparr>\<rparr>\<rparr>"

definition with_tm_ports :: "TaskManagerPorts \<Rightarrow> FlinkCluster \<Rightarrow> FlinkCluster" where
  "with_tm_ports ports c =
     c\<lparr>Spec := (Spec c)\<lparr>spec_TaskManagerSpec :=
          (spec_TaskManagerSpec (Spec c))\<lparr>tm_Ports := ports\<rparr>\<rparr>\<rparr>"

definition with_job_id :: "string \<Rightarrow> FlinkCluster \<Rightarrow> FlinkCluster" where
  "with_job_id i c =
     c\<lparr>Status := (Status c)\<lparr>status_Components := \<lparr>comp_Job = Some \<lparr>cjs_ID = i\<rparr>\<rparr>\<rparr>\<rparr>"

text \<open>
  A Kubernetes client that holds the given cluster, job pods and, under the derived names,
  the two deployments, the service and the job; any other lookup finds nothing. The HTTP
  endpoint answers every request with one running job.
\<close>

definition named :: "string \<Rightarrow> ObjectMeta" where
  "named n = zero_ObjectMeta\<lparr>om_Namespace := ''default'', om_Name := n\<rparr>"

definition sample_deployment :: "string \<Rightarrow> Deployment" where
  "sample_deployment n =
     \<lparr>d_ObjectMeta = named n,
      d_Spec = \<lparr>ds_Replicas = Some 1, ds_Selector = None,
                ds_Template = \<lparr>pt_ObjectMeta = zero_ObjectMeta, pt_Spec = zero_PodSpec\<rparr>\<rparr>\<rparr>"

definition sample_service :: Service where
  "sample_service =
     \<lparr>s_ObjectMeta = named ''flinkjobcluster-sample-jobmanager'', s_Spec = zero_ServiceSpec\<rparr>"

definition sample_batch_job :: Job where
  "sample_batch_job =
     \<lparr>j_ObjectMeta = named ''flinkjobcluster-sample-job'',
      j_Spec = \<lparr>bj_Template = \<lparr>pt_ObjectMeta = zero_ObjectMeta, pt_Spec = zero_PodSpec\<rparr>\<rparr>\<rparr>"

definition sample_pod :: "string \<Rightarrow> string \<Rightarrow> Pod" where
  "sample_pod n phase = \<lparr>p_ObjectMeta = named n, p_Status = \<lparr>pst_Phase = phase\<rparr>\<rparr>"

definition at_name :: "string \<Rightarrow> 'a \<Rightarrow> string \<times> string \<Rightarrow> error + 'a" where
  "at_name n x key = (if key = (''default'', n) then Inr x else Inl StatusNotFound)"

definition sample_client :: "(error + FlinkCluster) \<Rightarrow> (error + Pod list) \<Rightarrow> Client" where
  "sample_client c pods =
     \<lparr>get_FlinkCluster = (\<lambda>key. if key = (''default'', ''flinkjobcluster-sample'')
                                  then c else Inl StatusNotFound),
      get_Deployment = (\<lambda>key.
        if key = (''default'', ''flinkjobcluster-sample-jobmanager'')
        then Inr (sample_deployment ''flinkjobcluster-sample-jobmanager'')
        else at_name ''flinkjobcluster-sample-taskmanager''
               (sample_deployment ''flinkjobcluster-sample-taskmanager'') key),
      get_Service = at_name ''flinkjobcluster-sample-jobmanager'' sample_service,
      get_Job = at_name ''flinkjobcluster-sample-job'' sample_batch_job,
      list_Pods = (\<lambda>ns labels. if ns = ''default'' then pods else Inr [])\<rparr>"

definition sample_http :: Http where
  "sample_http =
     \<lparr>http_NewRequest = (\<lambda>url. True),
      http_Do = (\<lambda>url. Inr ''{jobs:[{id:4f2a,status:RUNNING}]}''),
      json_Unmarshal = (\<lambda>body. [\<lparr>fjs_ID = ''4f2a'', fjs_Status = ''RUNNING''\<rparr>])\<rparr>"

definition sample_observer :: "(error + FlinkCluster) \<Rightarrow> (error + Pod list) \<Rightarrow> ClusterStateObserver" where
  "sample_observer c pods =
     \<lparr>k8sClient = sample_client c pods,
      request = \<lparr>req_Namespace = ''default'', req_Name = ''flinkjobcluster-sample''\<rparr>,
      http = sample_http\<rparr>"

text \<open>
  The sample cluster with no UI port, and a client on which the lookup of the cluster
  fails.
\<close>

definition nil_ui_cluster :: FlinkCluster where
  "nil_ui_cluster =
     with_jm_ports \<lparr>jmp_RPC = Some 6123, jmp_Blob = Some 6124, jmp_Query = Some 6125,
                     jmp_UI = None\<rparr> sample_cluster"

definition running_pod :: Pod where
  "running_pod = sample_pod ''flinkjobcluster-sample-job-x7k2p'' ''Running''"

definition second_pod :: Pod where
  "second_pod = sample_pod ''manual-pod'' ''Running''"

text \<open>An empty client: every lookup finds nothing.\<close>

definition empty_observer :: ClusterStateObserver where
  "empty_observer =
     \<lparr>k8sClient =
        \<lparr>get_FlinkCluster = (\<lambda>key. Inl StatusNotFound),
         get_Deployment = (\<lambda>key. Inl StatusNotFound),
         get_Service = (\<lambda>key. Inl StatusNotFound),
         get_Job = (\<lambda>key. Inl StatusNotFound),
         list_Pods = (\<lambda>ns labels. Inl StatusNotFound)\<rparr>,
      request = \<lparr>req_Namespace = ''default'', req_Name = ''flinkjobcluster-sample''\<rparr>,
      http = sample_http\<rparr>"

text \<open>An observer whose lookup of the job resource gives the stated result.\<close>

definition with_job_lookup :: "(error + Job) \<Rightarrow> ClusterStateObserver \<Rightarrow> ClusterStateObserver" where
  "with_job_lookup r obs = obs\<lparr>k8sClient := (k8sClient obs)\<lparr>get_Job := (\<lambda>key. r)\<rparr>\<rparr>"

section \<open>Notions of the specification\<close>

text \<open>The final path segment of a jar location: what follows its last slash.\<close>

definition final_segment :: "string \<Rightarrow> string" where
  "final_segment s = rev (takeWhile (\<lambda>c. c \<noteq> CHR ''/'') (rev s))"

text \<open>
  The optional flags of the submission command line, in the order the specification
  lists them: \<open>--class\<close> if an entry class is set, \<open>--fromSavepoint\<close> if a savepoint path
  is set, \<open>--allowNonRestoredState\<close> if requested, \<open>--parallelism\<close> if set, the logging
  flag if requested.
\<close>

definition submit_options :: "JobSpec \<Rightarrow> string list" where
  "submit_options j =
     (case job_ClassName j of Some cn \<Rightarrow> [''--class'', cn] | None \<Rightarrow> []) @
     (case job_Savepoint j of Some sp \<Rightarrow> [''--fromSavepoint'', sp] | None \<Rightarrow> []) @
     (if job_AllowNonRestoredState j = Some True then [''--allowNonRestoredState''] else []) @
     (case job_Parallelism j of Some p \<Rightarrow> [''--parallelism'', Sprint_int32 p] | None \<Rightarrow> []) @
     (if job_NoLoggingToStdout j = Some True then [''--sysoutLogging''] else [])"

text \<open>The containers of a desired job.\<close>

definition job_containers :: "Job \<Rightarrow> Container list" where
  "job_containers j = ps_Containers (pt_Spec (bj_Template (j_Spec j)))"

text \<open>Which optional fields of a cluster are set.\<close>

definition jm_ports_set :: "FlinkCluster \<Rightarrow> bool" where
  "jm_ports_set c =
     (let ports = jm_Ports (spec_JobManagerSpec (Spec c))
      in jmp_RPC ports \<noteq> None \<and> jmp_Blob ports \<noteq> None \<and> jmp_Query ports \<noteq> None \<and>
         jmp_UI ports \<noteq> None)"

definition tm_ports_set :: "FlinkCluster \<Rightarrow> bool" where
  "tm_ports_set c =
     (let ports = tm_Ports (spec_TaskManagerSpec (Spec c))
      in tmp_Data ports \<noteq> None \<and> tmp_RPC ports \<noteq> None \<and> tmp_Query ports \<noteq> None)"

definition restart_policy_set :: "FlinkCluster \<Rightarrow> bool" where
  "restart_policy_set c =
     (case spec_JobSpec (Spec c) of None \<Rightarrow> True | Some j \<Rightarrow> job_RestartPolicy j \<noteq> None)"

definition ui_port_set :: "FlinkCluster \<Rightarrow> bool" where
  "ui_port_set c = (jmp_UI (jm_Ports (spec_JobManagerSpec (Spec c))) \<noteq> None)"

definition known_scope :: "FlinkCluster \<Rightarrow> bool" where
  "known_scope c =
     (jm_AccessScope (spec_JobManagerSpec (Spec c)) \<in>
        {AccessScope_Cluster, AccessScope_VPC, AccessScope_External})"

text \<open>The job identifier recorded in the persisted status of a cluster, if one is.\<close>

definition recorded_job_id :: "FlinkCluster \<Rightarrow> string option" where
  "recorded_job_id c =
     (case comp_Job (status_Components (Status c)) of
        None \<Rightarrow> None
      | Some js \<Rightarrow> if cjs_ID js = [] then None else Some (cjs_ID js))"

text \<open>
  What a lookup found, and the error other than not-found it failed with.
\<close>

definition found :: "error + 'a \<Rightarrow> 'a option" where
  "found r = (case r of Inl e \<Rightarrow> None | Inr x \<Rightarrow> Some x)"

definition failure :: "error + 'a \<Rightarrow> error option" where
  "failure r = (case r of Inl e \<Rightarrow> if e = StatusNotFound then None else Some e | Inr x \<Rightarrow> None)"

text \<open>
  The lookups of \<open>observe\<close>, by the call that performs them: the error a lookup returned,
  and whether the field of the observed state it fills is absent.
\<close>

definition error_of :: "error + 'a \<Rightarrow> error option" where
  "error_of r = (case r of Inl e \<Rightarrow> Some e | Inr x \<Rightarrow> None)"

fun lookup_error :: "ClusterStateObserver \<Rightarrow> call \<Rightarrow> error option" where
  "lookup_error obs GetCluster = error_of (observeCluster obs)"
| "lookup_error obs GetJobManagerDeployment = error_of (observeJobManagerDeployment obs)"
| "lookup_error obs GetJobManagerService = error_of (observeJobManagerService obs)"
| "lookup_error obs GetTaskManagerDeployment = error_of (observeTaskManagerDeployment obs)"
| "lookup_error obs GetJobResource = error_of (observeJobResource obs)"
| "lookup_error obs ListJobPods = error_of (observeJobPods obs)"
| "lookup_error obs (GetFlinkJobID url) = None"

fun field_absent :: "call \<Rightarrow> ObservedClusterState \<Rightarrow> bool" where
  "field_absent GetCluster s = (cluster s = None)"
| "field_absent GetJobManagerDeployment s = (jmDeployment s = None)"
| "field_absent GetJobManagerService s = (jmService s = None)"
| "field_absent GetTaskManagerDeployment s = (tmDeployment s = None)"
| "field_absent GetJobResource s = (job s = None)"
| "field_absent ListJobPods s = (jobPod s = None)"
| "field_absent (GetFlinkJobID url) s = (flinkJobID s = None)"

text \<open>
  The state the four component lookups leave when none of them fails, starting from the
  zero state, and the calls made up to there.
\<close>

definition observed_components :: "ClusterStateObserver \<Rightarrow> ObservedClusterState" where
  "observed_components obs =
     \<lparr>cluster = found (observeCluster obs),
      jmDeployment = found (observeJobManagerDeployment obs),
      jmService = found (observeJobManagerService obs),
      tmDeployment = found (observeTaskManagerDeployment obs),
      job = None, jobPod = None, flinkJobID = None\<rparr>"

definition component_calls :: "call list" where
  "component_calls =
     [GetCluster, GetJobManagerDeployment, GetJobManagerService, GetTaskManagerDeployment]"

text \<open>
  The state once the job resource and the job pods have been looked up as well, with
  at most one pod found, and the calls made up to there.
\<close>

definition observed_job :: "ClusterStateObserver \<Rightarrow> ObservedClusterState" where
  "observed_job obs =
     (observed_components obs)
       \<lparr>job := found (observeJobResource obs),
        jobPod := (case found (observeJobPods obs) of Some [pod] \<Rightarrow> Some pod | _ \<Rightarrow> None)\<rparr>"

definition job_calls :: "call list" where
  "job_calls = component_calls @ [GetJobResource, ListJobPods]"

text \<open>A pod phase in which the job may already answer.\<close>

definition pod_started :: "Pod \<Rightarrow> bool" where
  "pod_started pod =
     (pst_Phase (p_Status pod) \<noteq> PodPending \<and> pst_Phase (p_Status pod) \<noteq> PodUnknown)"

text \<open>
  The lookups one observation makes, as the specification has them: the cluster resource,
  the manager deployment, the manager service and the worker deployment, and, only if the
  cluster resource exists and specifies a job, the job resource and its pods; a lookup
  error other than not-found ends the observation, so no later lookup is made.
\<close>

definition lookup_failed :: "ClusterStateObserver \<Rightarrow> call \<Rightarrow> bool" where
  "lookup_failed obs T =
     (case lookup_error obs T of None \<Rightarrow> False | Some e \<Rightarrow> e \<noteq> StatusNotFound)"

fun until_failure :: "ClusterStateObserver \<Rightarrow> call list \<Rightarrow> call list" where
  "until_failure obs [] = []"
| "until_failure obs (T # Ts) =
     (if lookup_failed obs T then [T] else T # until_failure obs Ts)"

definition planned_lookups :: "ClusterStateObserver \<Rightarrow> call list" where
  "planned_lookups obs =
     component_calls @
     (case found (observeCluster obs) of
        None \<Rightarrow> []
      | Some c \<Rightarrow> if spec_JobSpec (Spec c) = None then [] else [GetJobResource, ListJobPods])"

definition lookups_made :: "ClusterStateObserver \<Rightarrow> call list" where
  "lookups_made obs = until_failure obs (planned_lookups obs)"

text \<open>Whether an observation called the job status prober.\<close>

fun is_probe :: "call \<Rightarrow> bool" where
  "is_probe (GetFlinkJobID url) = True"
| "is_probe _ = False"

definition prober_invoked :: "Observation \<Rightarrow> bool" where
  "prober_invoked r = list_ex is_probe (calls r)"

section \<open>Facts about the helper functions\<close>

lemmas sample_defs = sample_cluster_def sample_spec_def sample_job_def with_scope_def
  with_state_def with_properties_def with_job_def with_jm_ports_def with_tm_ports_def
  with_job_id_def two_properties_def

lemmas constant_defs = ClusterState_Stopping_def ClusterState_Stopped_def AccessScope_Cluster_def
  AccessScope_VPC_def AccessScope_External_def ServiceTypeClusterIP_def
  ServiceTypeLoadBalancer_def PodPending_def PodUnknown_def

lemmas zero_defs = zero_ObjectMeta_def zero_Container_def zero_PodSpec_def zero_ServiceSpec_def
  zero_ObservedClusterState_def

lemmas field_defs = stopping_or_stopped_def jm_ports_set_def tm_ports_set_def
  restart_policy_set_def ui_port_set_def known_scope_def

lemmas converter_defs = getDesiredClusterState_def getDesiredJobManagerDeployment_def
  getDesiredJobManagerService_def getDesiredTaskManagerDeployment_def getDesiredJob_def
  bind_abort_def deref_def toOwnerReference_def getJobManagerDeploymentName_def
  getJobManagerServiceName_def getTaskManagerDeploymentName_def getJobName_def
  getFlinkProperties_def property_line_def plain_env_def limit_env_def

lemma Sprint_8081: "Sprint_int32 8081 = ''8081''"
  by (simp add: Sprint_int32_def show_int_def show_nat.simps)

lemma Sprint_2: "Sprint_int32 2 = ''2''"
  by (simp add: Sprint_int32_def show_int_def show_nat.simps)

text \<open>
  A map with at most one key has one iteration order, so its blob is the same in every
  execution of the loop.
\<close>

lemma range_order_empty: "range_order Map.empty ks \<longleftrightarrow> ks = []"
  by (auto simp: range_order_def)

lemma range_order_single: "range_order [k \<mapsto> v] ks \<longleftrightarrow> ks = [k]"
proof
  assume "range_order [k \<mapsto> v] ks"
  then have d: "distinct ks" and s: "set ks = {k}"
    by (simp_all add: range_order_def)
  from d have "length ks = card (set ks)"
    by (simp add: distinct_card)
  with s have "length ks = 1" by simp
  then obtain x where "ks = [x]"
    by (cases ks) auto
  with s show "ks = [k]" by simp
next
  assume "ks = [k]"
  then show "range_order [k \<mapsto> v] ks"
    by (simp add: range_order_def)
qed

text \<open>\<open>strings.Split\<close> never returns the empty slice, so the index of the last part is in range.\<close>

lemma strings_Split_not_Nil: "strings_Split s sep \<noteq> []"
  by (induction s) auto

lemma last_strings_Split:
  "last (strings_Split s sep) = rev (takeWhile (\<lambda>c. c \<noteq> sep) (rev s))"
proof (induction s)
  case Nil
  then show ?case by simp
next
  case (Cons c s)
  show ?case
  proof (cases "sep \<in> set s")
    case True
    then have "tl (strings_Split s sep) \<noteq> []"
      by (induction s) (auto simp: strings_Split_not_Nil)
    then show ?thesis using Cons True
      by (auto simp: strings_Split_not_Nil takeWhile_append last_tl)
  next
    case False
    then have "strings_Split s sep = [s]"
      by (induction s) auto
    then show ?thesis using False
      by (auto simp: takeWhile_append)
  qed
qed

lemma strings_Contains_sublist: "strings_Contains s sub \<longleftrightarrow> sublist sub s"
  by (induction s) (auto simp: sublist_Cons_right)

lemma index_at_last: "xs \<noteq> [] \<Longrightarrow> index_at xs (int (length xs) - 1) = Inr (last xs)"
  by (cases xs rule: rev_cases) (auto simp: index_at_def nth_append)

lemma last_part: "index_at (strings_Split s (CHR ''/'')) (int (length (strings_Split s (CHR ''/''))) - 1)
   = Inr (final_segment s)"
  by (simp add: index_at_last strings_Split_not_Nil last_strings_Split final_segment_def)


text \<open>The job: when it is produced, when it aborts, and what it holds.\<close>

lemma getDesiredJob_None: "spec_JobSpec (Spec c) = None \<Longrightarrow> getDesiredJob c = Inr None"
  by (simp add: getDesiredJob_def)

lemma getDesiredJob_nil_ui:
  "spec_JobSpec (Spec c) = Some j \<Longrightarrow> jmp_UI (jm_Ports (spec_JobManagerSpec (Spec c))) = None \<Longrightarrow>
   getDesiredJob c = Inl NilPointerDereference"
  by (simp add: getDesiredJob_def bind_abort_def deref_def)

lemma getDesiredJob_nil_policy:
  "spec_JobSpec (Spec c) = Some j \<Longrightarrow> job_RestartPolicy j = None \<Longrightarrow>
   getDesiredJob c = Inl NilPointerDereference"
  by (simp add: getDesiredJob_def bind_abort_def deref_def Let_def last_part split: option.splits)

lemma getDesiredJob_Some:
  assumes "spec_JobSpec (Spec c) = Some j"
    and "jmp_UI (jm_Ports (spec_JobManagerSpec (Spec c))) = Some ui"
    and "job_RestartPolicy j = Some rp"
  shows "\<exists>dj ctr. getDesiredJob c = Inr (Some dj) \<and> job_containers dj = [ctr] \<and>
     c_Args ctr = [''./bin/flink'', ''run'', ''--jobmanager'',
                   om_Name (ObjectMeta c) @ ''-jobmanager:'' @ Sprint_int32 ui] @
                  submit_options j @
                  [if strings_Contains (job_JarFile j) ''://''
                   then ''/opt/flink/job/'' @ final_segment (job_JarFile j) else job_JarFile j] @
                  job_Args j \<and>
     c_Env ctr = spec_EnvVars (Spec c) @
                 (if strings_Contains (job_JarFile j) ''://''
                  then [plain_env ''FLINK_JOB_JAR_URI'' (job_JarFile j)] else [])"
  using assms
  by (simp add: getDesiredJob_def bind_abort_def deref_def Let_def last_part job_containers_def
      submit_options_def zero_PodSpec_def zero_Container_def)

lemma getDesiredJob_Inr_Some:
  assumes "getDesiredJob c = Inr (Some dj)"
  obtains j ui rp where "spec_JobSpec (Spec c) = Some j"
    and "jmp_UI (jm_Ports (spec_JobManagerSpec (Spec c))) = Some ui"
    and "job_RestartPolicy j = Some rp"
proof (cases "spec_JobSpec (Spec c)")
  case None
  with assms show ?thesis by (simp add: getDesiredJob_None)
next
  case (Some j)
  show ?thesis
  proof (cases "jmp_UI (jm_Ports (spec_JobManagerSpec (Spec c)))")
    case None
    with Some assms show ?thesis by (simp add: getDesiredJob_nil_ui)
  next
    case ui: (Some ui)
    show ?thesis
    proof (cases "job_RestartPolicy j")
      case None
      with Some assms show ?thesis by (simp add: getDesiredJob_nil_policy)
    next
      case (Some rp)
      with \<open>spec_JobSpec (Spec c) = Some j\<close> ui that show ?thesis by blast
    qed
  qed
qed


text \<open>The three gated resources, and when each of them aborts.\<close>

lemma jm_deployment_stopped:
  "stopping_or_stopped c \<Longrightarrow> getDesiredJobManagerDeployment ks c = Inr None"
  by (simp add: getDesiredJobManagerDeployment_def)

lemma jm_service_stopped:
  "stopping_or_stopped c \<Longrightarrow> getDesiredJobManagerService c = Inr None"
  by (simp add: getDesiredJobManagerService_def)

lemma tm_deployment_stopped:
  "stopping_or_stopped c \<Longrightarrow> getDesiredTaskManagerDeployment ks c = Inr None"
  by (simp add: getDesiredTaskManagerDeployment_def)

lemma jm_deployment_ok:
  "\<not> stopping_or_stopped c \<Longrightarrow> jm_ports_set c \<Longrightarrow>
   \<exists>d. getDesiredJobManagerDeployment ks c = Inr (Some d)"
  by (auto simp: getDesiredJobManagerDeployment_def jm_ports_set_def bind_abort_def deref_def Let_def)

lemma jm_deployment_nil:
  "\<not> stopping_or_stopped c \<Longrightarrow> \<not> jm_ports_set c \<Longrightarrow>
   getDesiredJobManagerDeployment ks c = Inl NilPointerDereference"
  by (auto simp: getDesiredJobManagerDeployment_def jm_ports_set_def bind_abort_def deref_def Let_def
      split: option.splits)

lemma jm_service_ok:
  "\<not> stopping_or_stopped c \<Longrightarrow> jm_ports_set c \<Longrightarrow> known_scope c \<Longrightarrow>
   \<exists>d. getDesiredJobManagerService c = Inr (Some d)"
  by (auto simp: getDesiredJobManagerService_def jm_ports_set_def known_scope_def bind_abort_def
      deref_def Let_def)

lemma jm_service_panic:
  "\<not> stopping_or_stopped c \<Longrightarrow> jm_ports_set c \<Longrightarrow> \<not> known_scope c \<Longrightarrow>
   getDesiredJobManagerService c =
     Inl (Panic (''Unknown service access cope: '' @ jm_AccessScope (spec_JobManagerSpec (Spec c))))"
  by (auto simp: getDesiredJobManagerService_def jm_ports_set_def known_scope_def bind_abort_def
      deref_def Let_def)

lemma tm_deployment_ok:
  "\<not> stopping_or_stopped c \<Longrightarrow> tm_ports_set c \<Longrightarrow>
   \<exists>d. getDesiredTaskManagerDeployment ks c = Inr (Some d)"
  by (auto simp: getDesiredTaskManagerDeployment_def tm_ports_set_def bind_abort_def deref_def Let_def)

lemma tm_deployment_nil:
  "\<not> stopping_or_stopped c \<Longrightarrow> \<not> tm_ports_set c \<Longrightarrow>
   getDesiredTaskManagerDeployment ks c = Inl NilPointerDereference"
  by (auto simp: getDesiredTaskManagerDeployment_def tm_ports_set_def bind_abort_def deref_def Let_def
      split: option.splits)

lemma job_ok:
  assumes "spec_JobSpec (Spec c) = None \<or> (ui_port_set c \<and> restart_policy_set c)"
  shows "\<exists>r. getDesiredJob c = Inr r"
proof (cases "spec_JobSpec (Spec c)")
  case None
  then show ?thesis by (simp add: getDesiredJob_None)
next
  case (Some j)
  with assms obtain ui rp where "jmp_UI (jm_Ports (spec_JobManagerSpec (Spec c))) = Some ui"
    and "job_RestartPolicy j = Some rp"
    by (auto simp: ui_port_set_def restart_policy_set_def)
  from getDesiredJob_Some [OF Some this] show ?thesis by blast
qed

lemma job_nil:
  assumes "spec_JobSpec (Spec c) \<noteq> None" and "\<not> (ui_port_set c \<and> restart_policy_set c)"
  shows "getDesiredJob c = Inl NilPointerDereference"
proof -
  from assms(1) obtain j where j: "spec_JobSpec (Spec c) = Some j" by blast
  show ?thesis
  proof (cases "ui_port_set c")
    case False
    with j show ?thesis by (simp add: getDesiredJob_nil_ui ui_port_set_def)
  next
    case True
    with assms(2) j have "job_RestartPolicy j = None"
      by (simp add: restart_policy_set_def)
    with j show ?thesis by (rule getDesiredJob_nil_policy)
  qed
qed

lemma state_stopped:
  "stopping_or_stopped c \<Longrightarrow>
   getDesiredClusterState jmOrder tmOrder (Some c) =
     bind_abort (getDesiredJob c) (\<lambda>job.
       Inr \<lparr>JmDeployment = None, JmService = None, TmDeployment = None, Job = job\<rparr>)"
  by (simp add: getDesiredClusterState_def jm_deployment_stopped jm_service_stopped
      tm_deployment_stopped bind_abort_def)

lemma state_unknown_scope:
  assumes "\<not> stopping_or_stopped c" and "jm_ports_set c" and "\<not> known_scope c"
  shows "getDesiredClusterState jmOrder tmOrder (Some c) =
           Inl (Panic (''Unknown service access cope: '' @
                       jm_AccessScope (spec_JobManagerSpec (Spec c))))"
proof -
  from jm_deployment_ok [OF assms(1,2), of jmOrder]
  obtain d where d: "getDesiredJobManagerDeployment jmOrder c = Inr (Some d)" ..
  with jm_service_panic [OF assms] show ?thesis
    by (simp add: getDesiredClusterState_def bind_abort_def)
qed

lemma jm_service_Some:
  assumes "getDesiredJobManagerService c = Inr (Some svc)"
  shows "\<not> stopping_or_stopped c \<and> jm_ports_set c \<and> known_scope c"
proof -
  have 1: "\<not> stopping_or_stopped c"
    using assms by (auto simp: jm_service_stopped)
  have 2: "jm_ports_set c"
    using assms 1 by (auto simp: getDesiredJobManagerService_def jm_ports_set_def bind_abort_def
        deref_def Let_def split: option.splits)
  have 3: "known_scope c"
    using assms jm_service_panic [OF 1 2] by auto
  from 1 2 3 show ?thesis by blast
qed

lemma jm_service_type:
  assumes "getDesiredJobManagerService c = Inr (Some svc)"
  shows "ss_Type (s_Spec svc) =
           (if jm_AccessScope (spec_JobManagerSpec (Spec c)) = AccessScope_Cluster
            then ServiceTypeClusterIP else ServiceTypeLoadBalancer)"
    and "om_Annotations (s_ObjectMeta svc) =
           (if jm_AccessScope (spec_JobManagerSpec (Spec c)) = AccessScope_VPC
            then [''cloud.google.com/load-balancer-type'' \<mapsto> ''Internal''] else Map.empty)"
proof -
  from jm_service_Some [OF assms] have "\<not> stopping_or_stopped c" and "jm_ports_set c" by auto
  then show "ss_Type (s_Spec svc) =
           (if jm_AccessScope (spec_JobManagerSpec (Spec c)) = AccessScope_Cluster
            then ServiceTypeClusterIP else ServiceTypeLoadBalancer)"
    and "om_Annotations (s_ObjectMeta svc) =
           (if jm_AccessScope (spec_JobManagerSpec (Spec c)) = AccessScope_VPC
            then [''cloud.google.com/load-balancer-type'' \<mapsto> ''Internal''] else Map.empty)"
    using assms
    by (auto simp: getDesiredJobManagerService_def jm_ports_set_def bind_abort_def deref_def Let_def
        zero_ObjectMeta_def zero_ServiceSpec_def AccessScope_Cluster_def AccessScope_VPC_def
        AccessScope_External_def split: if_splits)
qed

text \<open>
  What the phase gate covers: an absent cluster has no desired resource, and a cluster in
  phase Stopping or Stopped has neither deployment nor service; its job is kept exactly
  when it has a JobSpec.
\<close>

lemma state_absent:
  "getDesiredClusterState jmOrder tmOrder None =
     Inr \<lparr>JmDeployment = None, JmService = None, TmDeployment = None, Job = None\<rparr>"
  by (simp add: getDesiredClusterState_def)

lemma state_stopped_fields:
  assumes "stopping_or_stopped c" and "getDesiredClusterState jmOrder tmOrder (Some c) = Inr d"
  shows "JmDeployment d = None \<and> JmService d = None \<and> TmDeployment d = None \<and>
         (Job d = None \<longleftrightarrow> spec_JobSpec (Spec c) = None)"
proof (cases "getDesiredJob c")
  case (Inl a)
  with assms show ?thesis by (simp add: state_stopped bind_abort_def)
next
  case (Inr j)
  have "(j = None) = (spec_JobSpec (Spec c) = None)"
  proof (cases j)
    case None
    show ?thesis
    proof (cases "spec_JobSpec (Spec c)")
      case (Some js)
      have "getDesiredJob c \<noteq> Inr None"
      proof (cases "jmp_UI (jm_Ports (spec_JobManagerSpec (Spec c)))")
        case ui: (Some ui)
        show ?thesis
        proof (cases "job_RestartPolicy js")
          case (Some rp)
          from getDesiredJob_Some [OF \<open>spec_JobSpec (Spec c) = Some js\<close> ui Some]
          show ?thesis by auto
        qed (simp add: getDesiredJob_nil_policy [OF Some])
      qed (simp add: getDesiredJob_nil_ui [OF Some])
      with Inr None show ?thesis by simp
    qed (simp add: None)
  next
    case (Some dj)
    with Inr obtain js where "spec_JobSpec (Spec c) = Some js"
      by (auto elim: getDesiredJob_Inr_Some)
    with Some show ?thesis by simp
  qed
  with assms Inr show ?thesis by (auto simp: state_stopped bind_abort_def)
qed

section \<open>Facts about the observer\<close>

lemmas observer_defs = sample_observer_def sample_client_def sample_http_def empty_observer_def
  at_name_def named_def sample_deployment_def sample_service_def sample_batch_job_def
  sample_pod_def running_pod_def second_pod_def nil_ui_cluster_def
  observeCluster_def observeDeployment_def observeJobManagerDeployment_def
  observeTaskManagerDeployment_def observeJobManagerService_def observeJobResource_def
  observeJobPods_def getJobManagerDeploymentName_def getJobManagerServiceName_def
  getTaskManagerDeploymentName_def getJobName_def lookup_def IgnoreNotFound_def

text \<open>The three-way branch after a lookup, by what the lookup returned.\<close>

lemma lookup_failure: "failure r = Some e \<Longrightarrow> lookup r = Inl e"
  by (auto simp: failure_def lookup_def IgnoreNotFound_def split: sum.splits if_splits)

lemma lookup_found: "failure r = None \<Longrightarrow> lookup r = Inr (found r)"
  by (auto simp: failure_def found_def lookup_def IgnoreNotFound_def split: sum.splits if_splits)

lemma failure_Some_iff: "failure r = Some e \<longleftrightarrow> r = Inl e \<and> e \<noteq> StatusNotFound"
  by (auto simp: failure_def split: sum.splits)

lemma failure_None_iff: "failure r = None \<longleftrightarrow> r = Inl StatusNotFound \<or> (\<exists>x. r = Inr x)"
  by (auto simp: failure_def split: sum.splits)

lemma found_simps [simp]: "found (Inl e) = None" "found (Inr x) = Some x"
  by (simp_all add: found_def)

lemma error_of_simps [simp]: "error_of (Inl e) = Some e" "error_of (Inr x) = None"
  by (simp_all add: error_of_def)

lemma failure_not_found:
  assumes "failure r = Some e"
  shows "e \<noteq> StatusNotFound" and "StatusNotFound \<noteq> e"
  using assms by (auto simp: failure_Some_iff)

lemma error_of_failed: "failure r = Some e \<Longrightarrow> error_of r = Some x \<longleftrightarrow> x = e"
  by (auto simp: failure_Some_iff)

lemma error_of_passed:
  "failure r = None \<Longrightarrow> error_of r = Some x \<longleftrightarrow> x = StatusNotFound \<and> found r = None"
  by (cases r) (auto simp: failure_def split: if_splits)

text \<open>The paths of \<open>observe\<close> from the zero state, up to the job section.\<close>

lemma observe_cluster_failed:
  assumes "failure (observeCluster obs) = Some e"
  shows "observe obs s = \<lparr>outcome = Returned (Some e), observed = s, calls = [GetCluster]\<rparr>"
  by (simp add: observe_def lookup_failure [OF assms])

lemma observe_jm_failed:
  assumes "failure (observeCluster obs) = None"
    and "failure (observeJobManagerDeployment obs) = Some e"
  shows "observe obs zero_ObservedClusterState =
     \<lparr>outcome = Returned (Some e),
      observed = zero_ObservedClusterState\<lparr>cluster := found (observeCluster obs)\<rparr>,
      calls = [GetCluster, GetJobManagerDeployment]\<rparr>"
  by (simp add: observe_def lookup_found [OF assms(1)] lookup_failure [OF assms(2)]
      zero_ObservedClusterState_def Let_def split: option.splits)

lemma observe_service_failed:
  assumes "failure (observeCluster obs) = None"
    and "failure (observeJobManagerDeployment obs) = None"
    and "failure (observeJobManagerService obs) = Some e"
  shows "observe obs zero_ObservedClusterState =
     \<lparr>outcome = Returned (Some e),
      observed = zero_ObservedClusterState
        \<lparr>cluster := found (observeCluster obs),
         jmDeployment := found (observeJobManagerDeployment obs)\<rparr>,
      calls = [GetCluster, GetJobManagerDeployment, GetJobManagerService]\<rparr>"
  by (simp add: observe_def lookup_found [OF assms(1)] lookup_found [OF assms(2)]
      lookup_failure [OF assms(3)] zero_ObservedClusterState_def Let_def split: option.splits)

lemma observe_tm_failed:
  assumes "failure (observeCluster obs) = None"
    and "failure (observeJobManagerDeployment obs) = None"
    and "failure (observeJobManagerService obs) = None"
    and "failure (observeTaskManagerDeployment obs) = Some e"
  shows "observe obs zero_ObservedClusterState =
     \<lparr>outcome = Returned (Some e),
      observed = zero_ObservedClusterState
        \<lparr>cluster := found (observeCluster obs),
         jmDeployment := found (observeJobManagerDeployment obs),
         jmService := found (observeJobManagerService obs)\<rparr>,
      calls = component_calls\<rparr>"
  by (simp add: observe_def lookup_found [OF assms(1)] lookup_found [OF assms(2)]
      lookup_found [OF assms(3)] lookup_failure [OF assms(4)] zero_ObservedClusterState_def
      component_calls_def Let_def split: option.splits)

lemma observe_components:
  assumes "failure (observeCluster obs) = None"
    and "failure (observeJobManagerDeployment obs) = None"
    and "failure (observeJobManagerService obs) = None"
    and "failure (observeTaskManagerDeployment obs) = None"
  shows "observe obs zero_ObservedClusterState =
           observeJob obs (observed_components obs) component_calls"
  by (simp add: observe_def lookup_found [OF assms(1)] lookup_found [OF assms(2)]
      lookup_found [OF assms(3)] lookup_found [OF assms(4)] zero_ObservedClusterState_def
      component_calls_def observed_components_def Let_def split: option.splits)

text \<open>The paths of \<open>observeJob\<close>.\<close>

lemma observeJob_no_job:
  assumes "cluster s = None \<or> (\<exists>c. cluster s = Some c \<and> spec_JobSpec (Spec c) = None)"
  shows "observeJob obs s cs = \<lparr>outcome = Returned None, observed = s, calls = cs\<rparr>"
  using assms by (auto simp: observeJob_def)

lemma observeJob_job_failed:
  assumes "cluster s = Some c" and "spec_JobSpec (Spec c) \<noteq> None"
    and "failure (observeJobResource obs) = Some e"
  shows "observeJob obs s cs =
           \<lparr>outcome = Returned (Some e), observed = s, calls = cs @ [GetJobResource]\<rparr>"
  using assms(1,2) by (auto simp: observeJob_def lookup_failure [OF assms(3)])

lemma observeJob_pods_failed:
  assumes "cluster s = Some c" and "spec_JobSpec (Spec c) \<noteq> None"
    and "failure (observeJobResource obs) = None"
    and "failure (observeJobPods obs) = Some e"
    and "job s = None"
  shows "observeJob obs s cs =
           \<lparr>outcome = Returned (Some e), observed = s\<lparr>job := found (observeJobResource obs)\<rparr>,
            calls = cs @ [GetJobResource, ListJobPods]\<rparr>"
  using assms(1,2,5)
  by (auto simp: observeJob_def lookup_found [OF assms(3)] lookup_failure [OF assms(4)]
      Let_def split: option.splits)

lemma observeJob_many_pods:
  assumes "cluster s = Some c" and "spec_JobSpec (Spec c) \<noteq> None"
    and "failure (observeJobResource obs) = None"
    and "observeJobPods obs = Inr pods" and "length pods > 1"
    and "job s = None"
  shows "observeJob obs s cs =
           \<lparr>outcome = Returned (Some MoreThanOneJobPod),
            observed = s\<lparr>job := found (observeJobResource obs)\<rparr>,
            calls = cs @ [GetJobResource, ListJobPods]\<rparr>"
proof -
  from assms(2) obtain j where j: "spec_JobSpec (Spec c) = Some j" by blast
  have pods: "lookup (observeJobPods obs) = Inr (Some pods)"
    using assms(4) by (simp add: lookup_def)
  show ?thesis
    using assms(1,5,6) j
    by (simp add: observeJob_def lookup_found [OF assms(3)] pods Let_def split: option.splits)
qed

lemma observeJob_id_section:
  assumes "cluster s = Some c" and "spec_JobSpec (Spec c) \<noteq> None"
    and "failure (observeJobResource obs) = None"
    and "failure (observeJobPods obs) = None"
    and "length (case found (observeJobPods obs) of None \<Rightarrow> [] | Some l \<Rightarrow> l) \<le> 1"
    and "job s = None" and "jobPod s = None"
  shows "observeJob obs s cs =
           observeFlinkJobID obs c (found (observeJobResource obs))
             (s\<lparr>job := found (observeJobResource obs),
                jobPod := (case found (observeJobPods obs) of Some [pod] \<Rightarrow> Some pod | _ \<Rightarrow> None)\<rparr>)
             (cs @ [GetJobResource, ListJobPods])"
proof -
  let ?items = "case found (observeJobPods obs) of None \<Rightarrow> [] | Some l \<Rightarrow> l"
  have pod: "(case found (observeJobPods obs) of Some [pod] \<Rightarrow> Some pod | _ \<Rightarrow> None) =
             (if length ?items = 1 then Some (?items ! 0) else None)"
    by (auto split: option.splits list.splits)
  have upd: "(case found (observeJobResource obs) of None \<Rightarrow> s | Some j \<Rightarrow> s\<lparr>job := Some j\<rparr>) =
             s\<lparr>job := found (observeJobResource obs)\<rparr>"
    using assms(6) by (auto split: option.splits)
  have upd2: "s\<lparr>job := x, jobPod := None\<rparr> = s\<lparr>job := x\<rparr>" for x
    using assms(7) by simp
  from assms(2) obtain j where j: "spec_JobSpec (Spec c) = Some j" by blast
  show ?thesis
    using assms(1,5) j
    by (simp add: observeJob_def lookup_found [OF assms(3)] lookup_found [OF assms(4)]
        Let_def upd pod upd2 del: One_nat_def)
qed

text \<open>Every run of \<open>observe\<close> from the zero state takes one of nine paths.\<close>

lemma observe_zero_cases:
  fixes obs :: ClusterStateObserver
  defines "r \<equiv> observe obs zero_ObservedClusterState"
  obtains
    (cluster_failed) e where "failure (observeCluster obs) = Some e"
      and "r = \<lparr>outcome = Returned (Some e), observed = zero_ObservedClusterState,
                calls = [GetCluster]\<rparr>"
  | (jm_failed) e where "failure (observeCluster obs) = None"
      and "failure (observeJobManagerDeployment obs) = Some e"
      and "r = \<lparr>outcome = Returned (Some e),
                observed = zero_ObservedClusterState\<lparr>cluster := found (observeCluster obs)\<rparr>,
                calls = [GetCluster, GetJobManagerDeployment]\<rparr>"
  | (service_failed) e where "failure (observeCluster obs) = None"
      and "failure (observeJobManagerDeployment obs) = None"
      and "failure (observeJobManagerService obs) = Some e"
      and "r = \<lparr>outcome = Returned (Some e),
                observed = zero_ObservedClusterState
                  \<lparr>cluster := found (observeCluster obs),
                   jmDeployment := found (observeJobManagerDeployment obs)\<rparr>,
                calls = [GetCluster, GetJobManagerDeployment, GetJobManagerService]\<rparr>"
  | (tm_failed) e where "failure (observeCluster obs) = None"
      and "failure (observeJobManagerDeployment obs) = None"
      and "failure (observeJobManagerService obs) = None"
      and "failure (observeTaskManagerDeployment obs) = Some e"
      and "r = \<lparr>outcome = Returned (Some e),
                observed = zero_ObservedClusterState
                  \<lparr>cluster := found (observeCluster obs),
                   jmDeployment := found (observeJobManagerDeployment obs),
                   jmService := found (observeJobManagerService obs)\<rparr>,
                calls = component_calls\<rparr>"
  | (no_job) "failure (observeCluster obs) = None"
      and "failure (observeJobManagerDeployment obs) = None"
      and "failure (observeJobManagerService obs) = None"
      and "failure (observeTaskManagerDeployment obs) = None"
      and "found (observeCluster obs) = None \<or>
           (\<exists>c. found (observeCluster obs) = Some c \<and> spec_JobSpec (Spec c) = None)"
      and "r = \<lparr>outcome = Returned None, observed = observed_components obs,
                calls = component_calls\<rparr>"
  | (job_failed) c e where "failure (observeCluster obs) = None"
      and "failure (observeJobManagerDeployment obs) = None"
      and "failure (observeJobManagerService obs) = None"
      and "failure (observeTaskManagerDeployment obs) = None"
      and "found (observeCluster obs) = Some c" and "spec_JobSpec (Spec c) \<noteq> None"
      and "failure (observeJobResource obs) = Some e"
      and "r = \<lparr>outcome = Returned (Some e), observed = observed_components obs,
                calls = component_calls @ [GetJobResource]\<rparr>"
  | (pods_failed) c e where "failure (observeCluster obs) = None"
      and "failure (observeJobManagerDeployment obs) = None"
      and "failure (observeJobManagerService obs) = None"
      and "failure (observeTaskManagerDeployment obs) = None"
      and "found (observeCluster obs) = Some c" and "spec_JobSpec (Spec c) \<noteq> None"
      and "failure (observeJobResource obs) = None"
      and "failure (observeJobPods obs) = Some e"
      and "r = \<lparr>outcome = Returned (Some e),
                observed = (observed_components obs)\<lparr>job := found (observeJobResource obs)\<rparr>,
                calls = job_calls\<rparr>"
  | (many_pods) c pods where "failure (observeCluster obs) = None"
      and "failure (observeJobManagerDeployment obs) = None"
      and "failure (observeJobManagerService obs) = None"
      and "failure (observeTaskManagerDeployment obs) = None"
      and "found (observeCluster obs) = Some c" and "spec_JobSpec (Spec c) \<noteq> None"
      and "failure (observeJobResource obs) = None"
      and "observeJobPods obs = Inr pods" and "length pods > 1"
      and "r = \<lparr>outcome = Returned (Some MoreThanOneJobPod),
                observed = (observed_components obs)\<lparr>job := found (observeJobResource obs)\<rparr>,
                calls = job_calls\<rparr>"
  | (id_section) c where "failure (observeCluster obs) = None"
      and "failure (observeJobManagerDeployment obs) = None"
      and "failure (observeJobManagerService obs) = None"
      and "failure (observeTaskManagerDeployment obs) = None"
      and "found (observeCluster obs) = Some c" and "spec_JobSpec (Spec c) \<noteq> None"
      and "failure (observeJobResource obs) = None"
      and "failure (observeJobPods obs) = None"
      and "length (case found (observeJobPods obs) of None \<Rightarrow> [] | Some l \<Rightarrow> l) \<le> 1"
      and "r = observeFlinkJobID obs c (found (observeJobResource obs)) (observed_job obs) job_calls"
proof (cases "failure (observeCluster obs)")
  case (Some e)
  from observe_cluster_failed [OF Some] cluster_failed [OF Some] show thesis
    by (simp add: r_def)
next
  case f1: None
  show thesis
  proof (cases "failure (observeJobManagerDeployment obs)")
    case (Some e)
    from observe_jm_failed [OF f1 Some] jm_failed [OF f1 Some] show thesis
      by (simp add: r_def)
  next
    case f2: None
    show thesis
    proof (cases "failure (observeJobManagerService obs)")
      case (Some e)
      from observe_service_failed [OF f1 f2 Some] service_failed [OF f1 f2 Some] show thesis
        by (simp add: r_def)
    next
      case f3: None
      show thesis
      proof (cases "failure (observeTaskManagerDeployment obs)")
        case (Some e)
        from observe_tm_failed [OF f1 f2 f3 Some] tm_failed [OF f1 f2 f3 Some] show thesis
          by (simp add: r_def)
      next
        case f4: None
        note job = observe_components [OF f1 f2 f3 f4]
        have cl: "cluster (observed_components obs) = found (observeCluster obs)"
          and nj: "job (observed_components obs) = None"
          and np: "jobPod (observed_components obs) = None"
          by (simp_all add: observed_components_def)
        show thesis
        proof (cases "found (observeCluster obs) = None \<or>
           (\<exists>c. found (observeCluster obs) = Some c \<and> spec_JobSpec (Spec c) = None)")
          case True
          then have "cluster (observed_components obs) = None \<or>
            (\<exists>c. cluster (observed_components obs) = Some c \<and> spec_JobSpec (Spec c) = None)"
            by (simp add: cl)
          from observeJob_no_job [OF this] job no_job [OF f1 f2 f3 f4 True] show thesis
            by (simp add: r_def)
        next
          case False
          then obtain c where c: "found (observeCluster obs) = Some c"
            and js: "spec_JobSpec (Spec c) \<noteq> None"
            by auto
          from c have c': "cluster (observed_components obs) = Some c" by (simp add: cl)
          show thesis
          proof (cases "failure (observeJobResource obs)")
            case (Some e)
            from observeJob_job_failed [OF c' js Some] job job_failed [OF f1 f2 f3 f4 c js Some]
            show thesis by (simp add: r_def)
          next
            case f5: None
            show thesis
            proof (cases "failure (observeJobPods obs)")
              case (Some e)
              from observeJob_pods_failed [OF c' js f5 Some nj] job
                pods_failed [OF f1 f2 f3 f4 c js f5 Some]
              show thesis by (simp add: r_def job_calls_def)
            next
              case f6: None
              show thesis
              proof (cases "length (case found (observeJobPods obs) of None \<Rightarrow> [] | Some l \<Rightarrow> l) \<le> 1")
                case True
                from observeJob_id_section [OF c' js f5 f6 True nj np] job
                  id_section [OF f1 f2 f3 f4 c js f5 f6 True]
                show thesis by (simp add: r_def job_calls_def observed_job_def)
              next
                case False
                then obtain pods where pods: "observeJobPods obs = Inr pods" and len: "length pods > 1"
                  by (cases "observeJobPods obs") (auto simp: found_def)
                from observeJob_many_pods [OF c' js f5 pods len nj] job
                  many_pods [OF f1 f2 f3 f4 c js f5 pods len]
                show thesis by (simp add: r_def job_calls_def)
              qed
            qed
          qed
        qed
      qed
    qed
  qed
qed

text \<open>The section that finds the Flink job ID.\<close>

lemma id_recorded:
  assumes "recorded_job_id c = Some i"
  shows "observeFlinkJobID obs c j s cs =
           \<lparr>outcome = Returned None, observed = s\<lparr>flinkJobID := Some i\<rparr>, calls = cs\<rparr>"
  using assms
  by (auto simp: observeFlinkJobID_def recorded_job_id_def Let_def split: option.splits if_splits)

lemma id_frame:
  "cluster (observed (observeFlinkJobID obs c j s cs)) = cluster s"
  "jmDeployment (observed (observeFlinkJobID obs c j s cs)) = jmDeployment s"
  "jmService (observed (observeFlinkJobID obs c j s cs)) = jmService s"
  "tmDeployment (observed (observeFlinkJobID obs c j s cs)) = tmDeployment s"
  "job (observed (observeFlinkJobID obs c j s cs)) = job s"
  "jobPod (observed (observeFlinkJobID obs c j s cs)) = jobPod s"
  by (auto simp: observeFlinkJobID_def Let_def split: option.splits sum.splits)

lemma id_outcome:
  "outcome (observeFlinkJobID obs c j s cs) = Returned None \<or>
   outcome (observeFlinkJobID obs c j s cs) = Aborted NilPointerDereference"
  by (auto simp: observeFlinkJobID_def getFlinkJobID_def deref_def Let_def
      split: option.splits sum.splits list.splits)

lemma id_calls:
  "calls (observeFlinkJobID obs c j s cs) = cs \<or>
   (\<exists>url. calls (observeFlinkJobID obs c j s cs) = cs @ [GetFlinkJobID url])"
  by (auto simp: observeFlinkJobID_def Let_def split: option.splits sum.splits)

lemma id_probe_iff:
  assumes "\<not> list_ex is_probe cs"
  shows "prober_invoked (observeFlinkJobID obs c j s cs) \<longleftrightarrow>
     recorded_job_id c = None \<and> ui_port_set c \<and> j \<noteq> None \<and>
     (\<exists>pod. jobPod s = Some pod \<and> pod_started pod) \<and> jmService s \<noteq> None"
  using assms
  by (auto simp: observeFlinkJobID_def prober_invoked_def recorded_job_id_def ui_port_set_def
      pod_started_def deref_def Let_def split: option.splits sum.splits if_splits)

lemma id_no_pod:
  assumes "jobPod s = None"
  shows "outcome (observeFlinkJobID obs c j s cs) = Returned None"
    and "calls (observeFlinkJobID obs c j s cs) = cs"
  using assms
  by (auto simp: observeFlinkJobID_def Let_def split: option.splits)

text \<open>How \<open>observe\<close> handles a lookup that is in its call trace.\<close>

lemma lookup_handled:
  assumes "r = observe obs zero_ObservedClusterState" and "T \<in> set (calls r)"
  shows "(lookup_error obs T = Some StatusNotFound \<longrightarrow>
            field_absent T (observed r) \<and> (T \<noteq> last (calls r) \<or> outcome r = Returned None)) \<and>
         (\<forall>e. lookup_error obs T = Some e \<and> e \<noteq> StatusNotFound \<longrightarrow>
            outcome r = Returned (Some e) \<and> T = last (calls r)) \<and>
         outcome r \<noteq> Returned (Some StatusNotFound)"
proof (cases obs rule: observe_zero_cases)
  case (cluster_failed e)
  note f = error_of_failed [OF cluster_failed(1)] failure_not_found [OF cluster_failed(1)]
  from assms cluster_failed(2) show ?thesis
    by (simp add: f)
next
  case (jm_failed e)
  note f = error_of_passed [OF jm_failed(1)] error_of_failed [OF jm_failed(2)]
    failure_not_found [OF jm_failed(2)]
  from assms jm_failed(3) have "T = GetCluster \<or> T = GetJobManagerDeployment" by simp
  then show ?thesis
    using assms(1) jm_failed(3) by (elim disjE) (simp_all add: f)
next
  case (service_failed e)
  note f = error_of_passed [OF service_failed(1)] error_of_passed [OF service_failed(2)]
    error_of_failed [OF service_failed(3)] failure_not_found [OF service_failed(3)]
  from assms service_failed(4)
  have "T = GetCluster \<or> T = GetJobManagerDeployment \<or> T = GetJobManagerService" by simp
  then show ?thesis
    using assms(1) service_failed(4) by (elim disjE) (simp_all add: f)
next
  case (tm_failed e)
  note f = error_of_passed [OF tm_failed(1)] error_of_passed [OF tm_failed(2)]
    error_of_passed [OF tm_failed(3)] error_of_failed [OF tm_failed(4)]
    failure_not_found [OF tm_failed(4)]
  from assms tm_failed(5)
  have "T = GetCluster \<or> T = GetJobManagerDeployment \<or> T = GetJobManagerService \<or>
        T = GetTaskManagerDeployment"
    by (simp add: component_calls_def)
  then show ?thesis
    using assms(1) tm_failed(5) by (elim disjE) (simp_all add: f component_calls_def)
next
  case no_job
  note f = error_of_passed [OF no_job(1)] error_of_passed [OF no_job(2)]
    error_of_passed [OF no_job(3)] error_of_passed [OF no_job(4)]
  from assms no_job(6)
  have "T = GetCluster \<or> T = GetJobManagerDeployment \<or> T = GetJobManagerService \<or>
        T = GetTaskManagerDeployment"
    by (simp add: component_calls_def)
  then show ?thesis
    using assms(1) no_job(6)
    by (elim disjE) (simp_all add: f component_calls_def observed_components_def)
next
  case (job_failed c e)
  note f = error_of_passed [OF job_failed(1)] error_of_passed [OF job_failed(2)]
    error_of_passed [OF job_failed(3)] error_of_passed [OF job_failed(4)]
    error_of_failed [OF job_failed(7)] failure_not_found [OF job_failed(7)]
  from assms job_failed(8)
  have "T = GetCluster \<or> T = GetJobManagerDeployment \<or> T = GetJobManagerService \<or>
        T = GetTaskManagerDeployment \<or> T = GetJobResource"
    by (simp add: component_calls_def)
  then show ?thesis
    using assms(1) job_failed(8)
    by (elim disjE) (simp_all add: f component_calls_def observed_components_def)
next
  case (pods_failed c e)
  note f = error_of_passed [OF pods_failed(1)] error_of_passed [OF pods_failed(2)]
    error_of_passed [OF pods_failed(3)] error_of_passed [OF pods_failed(4)]
    error_of_passed [OF pods_failed(7)]
    error_of_failed [OF pods_failed(8)] failure_not_found [OF pods_failed(8)]
  from assms pods_failed(9)
  have "T = GetCluster \<or> T = GetJobManagerDeployment \<or> T = GetJobManagerService \<or>
        T = GetTaskManagerDeployment \<or> T = GetJobResource \<or> T = ListJobPods"
    by (simp add: component_calls_def job_calls_def)
  then show ?thesis
    using assms(1) pods_failed(9)
    by (elim disjE) (simp_all add: f component_calls_def job_calls_def observed_components_def)
next
  case (many_pods c pods)
  note f = error_of_passed [OF many_pods(1)] error_of_passed [OF many_pods(2)]
    error_of_passed [OF many_pods(3)] error_of_passed [OF many_pods(4)]
    error_of_passed [OF many_pods(7)]
  from assms many_pods(10)
  have "T = GetCluster \<or> T = GetJobManagerDeployment \<or> T = GetJobManagerService \<or>
        T = GetTaskManagerDeployment \<or> T = GetJobResource \<or> T = ListJobPods"
    by (simp add: component_calls_def job_calls_def)
  then show ?thesis
    using assms(1) many_pods(8,10)
    by (elim disjE) (simp_all add: f component_calls_def job_calls_def observed_components_def)
next
  case (id_section c)
  let ?r = "observeFlinkJobID obs c (found (observeJobResource obs)) (observed_job obs) job_calls"
  note f = error_of_passed [OF id_section(1)] error_of_passed [OF id_section(2)]
    error_of_passed [OF id_section(3)] error_of_passed [OF id_section(4)]
    error_of_passed [OF id_section(7)] error_of_passed [OF id_section(8)]
  from id_section assms(1) have r: "r = ?r" by simp
  have fields: "cluster (observed r) = found (observeCluster obs)"
    "jmDeployment (observed r) = found (observeJobManagerDeployment obs)"
    "jmService (observed r) = found (observeJobManagerService obs)"
    "tmDeployment (observed r) = found (observeTaskManagerDeployment obs)"
    "job (observed r) = found (observeJobResource obs)"
    "jobPod (observed r) = (case found (observeJobPods obs) of Some [pod] \<Rightarrow> Some pod | _ \<Rightarrow> None)"
    by (simp_all add: r id_frame observed_job_def observed_components_def)
  have out: "outcome r \<noteq> Returned (Some e)" for e
    using id_outcome [of obs c "found (observeJobResource obs)" "observed_job obs" job_calls]
    by (auto simp: r)
  have quiet: "outcome r = Returned None \<and> calls r = job_calls" if "found (observeJobPods obs) = None"
    using that id_no_pod [of "observed_job obs" obs c "found (observeJobResource obs)" job_calls]
    by (simp add: r observed_job_def)
  from id_calls [of obs c "found (observeJobResource obs)" "observed_job obs" job_calls]
  consider "calls r = job_calls" | url where "calls r = job_calls @ [GetFlinkJobID url]"
    by (auto simp: r)
  then show ?thesis
  proof cases
    case 1
    from assms(2) 1
    have "T = GetCluster \<or> T = GetJobManagerDeployment \<or> T = GetJobManagerService \<or>
        T = GetTaskManagerDeployment \<or> T = GetJobResource \<or> T = ListJobPods"
      by (simp add: component_calls_def job_calls_def)
    then show ?thesis
      using 1 out quiet
      by (elim disjE) (simp_all add: f fields component_calls_def job_calls_def)
  next
    case 2
    from assms(2) 2
    have "T = GetCluster \<or> T = GetJobManagerDeployment \<or> T = GetJobManagerService \<or>
        T = GetTaskManagerDeployment \<or> T = GetJobResource \<or> T = ListJobPods \<or>
        T = GetFlinkJobID url"
      by (simp add: component_calls_def job_calls_def)
    then show ?thesis
      using 2 out quiet
      by (elim disjE) (simp_all add: f fields component_calls_def job_calls_def)
  qed
qed

text \<open>Which lookups a run makes, and where a returned error comes from.\<close>

lemma failed_yes:
  "failure r = Some e \<Longrightarrow> (case error_of r of None \<Rightarrow> False | Some x \<Rightarrow> x \<noteq> StatusNotFound)"
  by (auto simp: failure_Some_iff)

lemma failed_no:
  "failure r = None \<Longrightarrow> \<not> (case error_of r of None \<Rightarrow> False | Some x \<Rightarrow> x \<noteq> StatusNotFound)"
  by (cases r) (auto simp: failure_def split: if_splits)

lemmas lookups_simps = lookups_made_def planned_lookups_def component_calls_def job_calls_def
  lookup_failed_def

lemma lookups_made_eq:
  "filter (\<lambda>T. \<not> is_probe T) (calls (observe obs zero_ObservedClusterState)) = lookups_made obs"
proof (cases obs rule: observe_zero_cases)
  case (cluster_failed e)
  then show ?thesis
    by (simp add: lookups_simps failed_yes [OF cluster_failed(1)])
next
  case (jm_failed e)
  then show ?thesis
    by (simp add: lookups_simps failed_no [OF jm_failed(1)] failed_yes [OF jm_failed(2)])
next
  case (service_failed e)
  then show ?thesis
    by (simp add: lookups_simps failed_no [OF service_failed(1)] failed_no [OF service_failed(2)]
        failed_yes [OF service_failed(3)])
next
  case (tm_failed e)
  then show ?thesis
    by (simp add: lookups_simps failed_no [OF tm_failed(1)] failed_no [OF tm_failed(2)]
        failed_no [OF tm_failed(3)] failed_yes [OF tm_failed(4)])
next
  case no_job
  note f = failed_no [OF no_job(1)] failed_no [OF no_job(2)] failed_no [OF no_job(3)]
    failed_no [OF no_job(4)]
  from no_job(5) show ?thesis
    using no_job(6) by (auto simp: lookups_simps f)
next
  case (job_failed c e)
  note f = failed_no [OF job_failed(1)] failed_no [OF job_failed(2)] failed_no [OF job_failed(3)]
    failed_no [OF job_failed(4)] failed_yes [OF job_failed(7)]
  from job_failed(5,6,8) show ?thesis
    by (simp add: lookups_simps f)
next
  case (pods_failed c e)
  note f = failed_no [OF pods_failed(1)] failed_no [OF pods_failed(2)]
    failed_no [OF pods_failed(3)] failed_no [OF pods_failed(4)] failed_no [OF pods_failed(7)]
    failed_yes [OF pods_failed(8)]
  from pods_failed(5,6,9) show ?thesis
    by (simp add: lookups_simps f)
next
  case (many_pods c pods)
  have "failure (observeJobPods obs) = None"
    using many_pods(8) by (simp add: failure_def)
  note f = failed_no [OF many_pods(1)] failed_no [OF many_pods(2)]
    failed_no [OF many_pods(3)] failed_no [OF many_pods(4)] failed_no [OF many_pods(7)]
    failed_no [OF this]
  from many_pods(5,6,10) show ?thesis
    by (simp add: lookups_simps f)
next
  case (id_section c)
  note f = failed_no [OF id_section(1)] failed_no [OF id_section(2)]
    failed_no [OF id_section(3)] failed_no [OF id_section(4)] failed_no [OF id_section(7)]
    failed_no [OF id_section(8)]
  from id_calls [of obs c "found (observeJobResource obs)" "observed_job obs" job_calls]
  have "filter (\<lambda>T. \<not> is_probe T)
          (calls (observeFlinkJobID obs c (found (observeJobResource obs)) (observed_job obs)
             job_calls)) = job_calls"
    by (auto simp: job_calls_def component_calls_def)
  with id_section(5,6,10) show ?thesis
    by (simp add: lookups_simps f)
qed

lemma returned_error_origin:
  assumes "outcome (observe obs zero_ObservedClusterState) = Returned (Some e)"
  shows "e = MoreThanOneJobPod \<or>
         lookup_error obs (last (calls (observe obs zero_ObservedClusterState))) = Some e"
proof (cases obs rule: observe_zero_cases)
  case (cluster_failed e')
  with assms show ?thesis
    by (simp add: error_of_failed [OF cluster_failed(1)])
next
  case (jm_failed e')
  with assms show ?thesis
    by (simp add: error_of_failed [OF jm_failed(2)])
next
  case (service_failed e')
  with assms show ?thesis
    by (simp add: error_of_failed [OF service_failed(3)])
next
  case (tm_failed e')
  with assms show ?thesis
    by (simp add: error_of_failed [OF tm_failed(4)] component_calls_def)
next
  case no_job
  with assms show ?thesis by simp
next
  case (job_failed c e')
  with assms show ?thesis
    by (simp add: error_of_failed [OF job_failed(7)])
next
  case (pods_failed c e')
  with assms show ?thesis
    by (simp add: error_of_failed [OF pods_failed(8)] job_calls_def)
next
  case (many_pods c pods)
  with assms show ?thesis by simp
next
  case (id_section c)
  with assms id_outcome [of obs c "found (observeJobResource obs)" "observed_job obs" job_calls]
  show ?thesis by simp
qed

section \<open>Claims about the converter\<close>

text \<open>
  C1. For a cluster whose phase is Stopping or Stopped, and for an absent cluster, all four
  desired resources are null, the job even when a JobSpec is present. The three functions
  for the deployments and the service test the phase first; \<open>getDesiredJob\<close> does not.
  On the sample cluster in phase Stopped the converter returns no deployment and no
  service, and the job \<open>flinkjobcluster-sample-job\<close>.
\<close>

theorem stopped_cluster_keeps_job:
  "\<exists>d j. getDesiredClusterState [''taskmanager.numberOfTaskSlots''] [''taskmanager.numberOfTaskSlots'']
            (Some (with_state ''Stopped'' sample_cluster)) = Inr d \<and>
     stopping_or_stopped (with_state ''Stopped'' sample_cluster) \<and>
     JmDeployment d = None \<and> JmService d = None \<and> TmDeployment d = None \<and> Job d = Some j \<and>
     om_Name (j_ObjectMeta j) = ''flinkjobcluster-sample-job''"
  by (simp add: converter_defs sample_defs constant_defs zero_defs field_defs Let_def
      Sprint_8081 Sprint_2)

text \<open>
  C2. Two calls of the converter on the same cluster give the same desired state, the
  \<open>FLINK_PROPERTIES\<close> blob included. The blob is written in the order in which the
  runtime ranges over the property map: for a map of two properties both orders are
  possible, they give two different blobs, and with them two different desired states.
\<close>

theorem properties_order_dependent:
  "range_order two_properties [''taskmanager.numberOfTaskSlots'', ''jobmanager.heap.size''] \<and>
   range_order two_properties [''jobmanager.heap.size'', ''taskmanager.numberOfTaskSlots''] \<and>
   getFlinkProperties two_properties [''taskmanager.numberOfTaskSlots'', ''jobmanager.heap.size''] =
     ''taskmanager.numberOfTaskSlots: 1'' @ [CHR 0x0A] @ ''jobmanager.heap.size: 1024m'' @ [CHR 0x0A] \<and>
   getFlinkProperties two_properties [''jobmanager.heap.size'', ''taskmanager.numberOfTaskSlots''] =
     ''jobmanager.heap.size: 1024m'' @ [CHR 0x0A] @ ''taskmanager.numberOfTaskSlots: 1'' @ [CHR 0x0A] \<and>
   getDesiredClusterState [''taskmanager.numberOfTaskSlots'', ''jobmanager.heap.size'']
       [''taskmanager.numberOfTaskSlots'', ''jobmanager.heap.size'']
       (Some (with_properties two_properties sample_cluster)) \<noteq>
   getDesiredClusterState [''jobmanager.heap.size'', ''taskmanager.numberOfTaskSlots'']
       [''jobmanager.heap.size'', ''taskmanager.numberOfTaskSlots'']
       (Some (with_properties two_properties sample_cluster))"
  by (simp add: converter_defs sample_defs constant_defs zero_defs field_defs Let_def
      range_order_def Sprint_8081 Sprint_2 insert_commute)

text \<open>
  C3, as the code has it. For a cluster that is present, in a phase other than Stopping
  and Stopped, with all four manager ports set and an access scope other than Cluster,
  VPC and External, the computation of the desired state ends in the panic
  \<open>Unknown service access cope: <scope>\<close>, whatever the other fields are: it aborts, and
  no error value reaches the caller.
\<close>

theorem unknown_scope_panics:
  assumes "\<not> stopping_or_stopped c" and "jm_ports_set c" and "\<not> known_scope c"
  shows "getDesiredClusterState jmOrder tmOrder (Some c) =
           Inl (Panic (''Unknown service access cope: '' @
                       jm_AccessScope (spec_JobManagerSpec (Spec c))))"
  using assms by (rule state_unknown_scope)

theorem unknown_scope_panics_witness:
  "\<not> stopping_or_stopped (with_scope ''NodePort'' sample_cluster) \<and>
   jm_ports_set (with_scope ''NodePort'' sample_cluster) \<and>
   \<not> known_scope (with_scope ''NodePort'' sample_cluster) \<and>
   getDesiredClusterState [] [] (Some (with_scope ''NodePort'' sample_cluster)) =
     Inl (Panic ''Unknown service access cope: NodePort'')"
proof -
  have h: "\<not> stopping_or_stopped (with_scope ''NodePort'' sample_cluster)"
    "jm_ports_set (with_scope ''NodePort'' sample_cluster)"
    "\<not> known_scope (with_scope ''NodePort'' sample_cluster)"
    by (simp_all add: sample_defs constant_defs field_defs)
  from unknown_scope_panics [OF h, of "[]" "[]"] h show ?thesis
    by (simp add: sample_defs)
qed

text \<open>
  The claim as the specification states it (a configuration error is returned, the
  process does not abort) fails on the sample cluster with access scope \<open>Internet\<close>.
\<close>

theorem unknown_scope_counterexample:
  "getDesiredClusterState [''taskmanager.numberOfTaskSlots''] [''taskmanager.numberOfTaskSlots'']
     (Some (with_scope ''Internet'' sample_cluster)) =
   Inl (Panic ''Unknown service access cope: Internet'')"
  by (simp add: converter_defs sample_defs constant_defs zero_defs field_defs Let_def)

text \<open>
  C6. For every cluster with a JobSpec whose manager UI port and restart policy are set,
  the converter produces a job with one container. Its arguments are the base command,
  the manager address and the optional flags, then the jar argument, then the user
  arguments; its environment is the cluster's. When the jar location contains \<open>://\<close>,
  the jar argument is \<open>/opt/flink/job/\<close> followed by the final path segment of the
  location, and the environment is followed by \<open>FLINK_JOB_JAR_URI\<close> with the location as
  given. Otherwise the jar argument is the location as given, and nothing is added to
  the environment.
\<close>

theorem jar_rewrite:
  assumes "spec_JobSpec (Spec c) = Some j"
    and "jmp_UI (jm_Ports (spec_JobManagerSpec (Spec c))) = Some ui"
    and "job_RestartPolicy j = Some rp"
  shows "\<exists>dj ctr. getDesiredJob c = Inr (Some dj) \<and> job_containers dj = [ctr] \<and>
     (if sublist ''://'' (job_JarFile j)
      then c_Args ctr =
             [''./bin/flink'', ''run'', ''--jobmanager'',
              om_Name (ObjectMeta c) @ ''-jobmanager:'' @ Sprint_int32 ui] @ submit_options j @
             [''/opt/flink/job/'' @ final_segment (job_JarFile j)] @ job_Args j \<and>
           c_Env ctr = spec_EnvVars (Spec c) @
             [\<lparr>ev_Name = ''FLINK_JOB_JAR_URI'', ev_Value = job_JarFile j, ev_ValueFrom = None\<rparr>]
      else c_Args ctr =
             [''./bin/flink'', ''run'', ''--jobmanager'',
              om_Name (ObjectMeta c) @ ''-jobmanager:'' @ Sprint_int32 ui] @ submit_options j @
             [job_JarFile j] @ job_Args j \<and>
           c_Env ctr = spec_EnvVars (Spec c))"
proof -
  from getDesiredJob_Some [OF assms]
  obtain dj ctr where dj: "getDesiredJob c = Inr (Some dj)" and ctr: "job_containers dj = [ctr]"
    and args: "c_Args ctr = [''./bin/flink'', ''run'', ''--jobmanager'',
                   om_Name (ObjectMeta c) @ ''-jobmanager:'' @ Sprint_int32 ui] @
                  submit_options j @
                  [if strings_Contains (job_JarFile j) ''://''
                   then ''/opt/flink/job/'' @ final_segment (job_JarFile j) else job_JarFile j] @
                  job_Args j"
    and env: "c_Env ctr = spec_EnvVars (Spec c) @
                 (if strings_Contains (job_JarFile j) ''://''
                  then [plain_env ''FLINK_JOB_JAR_URI'' (job_JarFile j)] else [])"
    by blast
  have "if sublist ''://'' (job_JarFile j)
      then c_Args ctr =
             [''./bin/flink'', ''run'', ''--jobmanager'',
              om_Name (ObjectMeta c) @ ''-jobmanager:'' @ Sprint_int32 ui] @ submit_options j @
             [''/opt/flink/job/'' @ final_segment (job_JarFile j)] @ job_Args j \<and>
           c_Env ctr = spec_EnvVars (Spec c) @
             [\<lparr>ev_Name = ''FLINK_JOB_JAR_URI'', ev_Value = job_JarFile j, ev_ValueFrom = None\<rparr>]
      else c_Args ctr =
             [''./bin/flink'', ''run'', ''--jobmanager'',
              om_Name (ObjectMeta c) @ ''-jobmanager:'' @ Sprint_int32 ui] @ submit_options j @
             [job_JarFile j] @ job_Args j \<and>
           c_Env ctr = spec_EnvVars (Spec c)"
    using args env by (simp add: strings_Contains_sublist plain_env_def)
  with dj ctr show ?thesis by blast
qed

theorem jar_rewrite_witness:
  "(\<exists>dj ctr.
      getDesiredJob (with_job (Some (sample_job\<lparr>job_JarFile := ''s3://bucket/path/app.jar''\<rparr>))
                       sample_cluster) = Inr (Some dj) \<and>
      job_containers dj = [ctr] \<and>
      c_Args ctr = [''./bin/flink'', ''run'', ''--jobmanager'',
                    ''flinkjobcluster-sample-jobmanager:8081'',
                    ''--class'', ''org.apache.flink.examples.java.wordcount.WordCount'',
                    ''--parallelism'', ''2'',
                    ''/opt/flink/job/app.jar'', ''--input'', ''./README.txt''] \<and>
      c_Env ctr = [\<lparr>ev_Name = ''FLINK_JOB_JAR_URI'', ev_Value = ''s3://bucket/path/app.jar'',
                    ev_ValueFrom = None\<rparr>]) \<and>
   (\<exists>dj ctr.
      getDesiredJob (with_job (Some (sample_job\<lparr>job_JarFile := ''./local/app.jar''\<rparr>))
                       sample_cluster) = Inr (Some dj) \<and>
      job_containers dj = [ctr] \<and>
      c_Args ctr = [''./bin/flink'', ''run'', ''--jobmanager'',
                    ''flinkjobcluster-sample-jobmanager:8081'',
                    ''--class'', ''org.apache.flink.examples.java.wordcount.WordCount'',
                    ''--parallelism'', ''2'',
                    ''./local/app.jar'', ''--input'', ''./README.txt''] \<and>
      c_Env ctr = [])"
proof -
  let ?remote = "sample_job\<lparr>job_JarFile := ''s3://bucket/path/app.jar''\<rparr>"
  let ?local = "sample_job\<lparr>job_JarFile := ''./local/app.jar''\<rparr>"
  have remote: "spec_JobSpec (Spec (with_job (Some ?remote) sample_cluster)) = Some ?remote"
    and loc: "spec_JobSpec (Spec (with_job (Some ?local) sample_cluster)) = Some ?local"
    by (simp_all add: sample_defs)
  have ui: "jmp_UI (jm_Ports (spec_JobManagerSpec (Spec (with_job x sample_cluster)))) = Some 8081"
    for x
    by (simp add: sample_defs)
  have rp: "job_RestartPolicy ?remote = Some ''OnFailure''" "job_RestartPolicy ?local = Some ''OnFailure''"
    by (simp_all add: sample_defs)
  have c1: "sublist ''://'' ''s3://bucket/path/app.jar''"
    by (simp add: strings_Contains_sublist [symmetric])
  have c2: "\<not> sublist ''://'' ''./local/app.jar''"
    by (simp add: strings_Contains_sublist [symmetric])
  have seg: "final_segment ''s3://bucket/path/app.jar'' = ''app.jar''"
    by (simp add: final_segment_def)
  have opts: "submit_options ?remote =
      [''--class'', ''org.apache.flink.examples.java.wordcount.WordCount'', ''--parallelism'', ''2'']"
    "submit_options ?local =
      [''--class'', ''org.apache.flink.examples.java.wordcount.WordCount'', ''--parallelism'', ''2'']"
    by (simp_all add: submit_options_def sample_defs Sprint_2)
  have name: "om_Name (ObjectMeta (with_job x sample_cluster)) = ''flinkjobcluster-sample''"
    "spec_EnvVars (Spec (with_job x sample_cluster)) = []" for x
    by (simp_all add: sample_defs zero_defs)
  have jar: "job_JarFile ?remote = ''s3://bucket/path/app.jar''" "job_Args ?remote = [''--input'', ''./README.txt'']"
    "job_JarFile ?local = ''./local/app.jar''" "job_Args ?local = [''--input'', ''./README.txt'']"
    by (simp_all add: sample_defs)
  from jar_rewrite [OF remote ui rp(1)] have
    "\<exists>dj ctr.
      getDesiredJob (with_job (Some ?remote) sample_cluster) = Inr (Some dj) \<and>
      job_containers dj = [ctr] \<and>
      c_Args ctr = [''./bin/flink'', ''run'', ''--jobmanager'',
                    ''flinkjobcluster-sample-jobmanager:8081'',
                    ''--class'', ''org.apache.flink.examples.java.wordcount.WordCount'',
                    ''--parallelism'', ''2'',
                    ''/opt/flink/job/app.jar'', ''--input'', ''./README.txt''] \<and>
      c_Env ctr = [\<lparr>ev_Name = ''FLINK_JOB_JAR_URI'', ev_Value = ''s3://bucket/path/app.jar'',
                    ev_ValueFrom = None\<rparr>]"
    by (simp add: c1 seg opts name jar Sprint_8081)
  moreover from jar_rewrite [OF loc ui rp(2)] have
    "\<exists>dj ctr.
      getDesiredJob (with_job (Some ?local) sample_cluster) = Inr (Some dj) \<and>
      job_containers dj = [ctr] \<and>
      c_Args ctr = [''./bin/flink'', ''run'', ''--jobmanager'',
                    ''flinkjobcluster-sample-jobmanager:8081'',
                    ''--class'', ''org.apache.flink.examples.java.wordcount.WordCount'',
                    ''--parallelism'', ''2'',
                    ''./local/app.jar'', ''--input'', ''./README.txt''] \<and>
      c_Env ctr = []"
    by (simp add: c2 opts name jar Sprint_8081)
  ultimately show ?thesis by blast
qed



text \<open>
  C8. A desired manager service has type ClusterIP and no annotation when the access scope
  is Cluster, type LoadBalancer and the annotation
  \<open>cloud.google.com/load-balancer-type: Internal\<close> when it is VPC, and type LoadBalancer
  and no annotation when it is External; with any other access scope there is no such
  service. For a cluster in a phase other than Stopping and Stopped with its manager
  ports set, a known scope yields the service, and any other value ends the computation
  of the service, and with it that of the desired state, in a panic.
\<close>

theorem access_scope_mapping:
  "(\<forall>svc. getDesiredJobManagerService c = Inr (Some svc) \<longrightarrow>
      (jm_AccessScope (spec_JobManagerSpec (Spec c)) = AccessScope_Cluster \<longrightarrow>
         ss_Type (s_Spec svc) = ServiceTypeClusterIP \<and>
         om_Annotations (s_ObjectMeta svc) = Map.empty) \<and>
      (jm_AccessScope (spec_JobManagerSpec (Spec c)) = AccessScope_VPC \<longrightarrow>
         ss_Type (s_Spec svc) = ServiceTypeLoadBalancer \<and>
         om_Annotations (s_ObjectMeta svc) =
           [''cloud.google.com/load-balancer-type'' \<mapsto> ''Internal'']) \<and>
      (jm_AccessScope (spec_JobManagerSpec (Spec c)) = AccessScope_External \<longrightarrow>
         ss_Type (s_Spec svc) = ServiceTypeLoadBalancer \<and>
         om_Annotations (s_ObjectMeta svc) = Map.empty) \<and>
      known_scope c) \<and>
   (\<not> stopping_or_stopped c \<and> jm_ports_set c \<longrightarrow>
      (if known_scope c
       then \<exists>svc. getDesiredJobManagerService c = Inr (Some svc)
       else getDesiredJobManagerService c =
              Inl (Panic (''Unknown service access cope: '' @
                          jm_AccessScope (spec_JobManagerSpec (Spec c)))) \<and>
            getDesiredClusterState jmOrder tmOrder (Some c) =
              Inl (Panic (''Unknown service access cope: '' @
                          jm_AccessScope (spec_JobManagerSpec (Spec c))))))"
proof (intro conjI allI impI)
  fix svc
  assume svc: "getDesiredJobManagerService c = Inr (Some svc)"
  show "known_scope c"
    using jm_service_Some [OF svc] by simp
  show "ss_Type (s_Spec svc) = ServiceTypeClusterIP"
    if "jm_AccessScope (spec_JobManagerSpec (Spec c)) = AccessScope_Cluster"
    using jm_service_type(1) [OF svc] that by simp
  show "om_Annotations (s_ObjectMeta svc) = Map.empty"
    if "jm_AccessScope (spec_JobManagerSpec (Spec c)) = AccessScope_Cluster"
    using jm_service_type(2) [OF svc] that by (simp add: constant_defs)
  show "ss_Type (s_Spec svc) = ServiceTypeLoadBalancer"
    if "jm_AccessScope (spec_JobManagerSpec (Spec c)) = AccessScope_VPC"
    using jm_service_type(1) [OF svc] that by (simp add: constant_defs)
  show "om_Annotations (s_ObjectMeta svc) = [''cloud.google.com/load-balancer-type'' \<mapsto> ''Internal'']"
    if "jm_AccessScope (spec_JobManagerSpec (Spec c)) = AccessScope_VPC"
    using jm_service_type(2) [OF svc] that by simp
  show "ss_Type (s_Spec svc) = ServiceTypeLoadBalancer"
    if "jm_AccessScope (spec_JobManagerSpec (Spec c)) = AccessScope_External"
    using jm_service_type(1) [OF svc] that by (simp add: constant_defs)
  show "om_Annotations (s_ObjectMeta svc) = Map.empty"
    if "jm_AccessScope (spec_JobManagerSpec (Spec c)) = AccessScope_External"
    using jm_service_type(2) [OF svc] that by (simp add: constant_defs)
next
  assume run: "\<not> stopping_or_stopped c \<and> jm_ports_set c"
  then have 1: "\<not> stopping_or_stopped c" and 2: "jm_ports_set c" by auto
  show "if known_scope c
       then \<exists>svc. getDesiredJobManagerService c = Inr (Some svc)
       else getDesiredJobManagerService c =
              Inl (Panic (''Unknown service access cope: '' @
                          jm_AccessScope (spec_JobManagerSpec (Spec c)))) \<and>
            getDesiredClusterState jmOrder tmOrder (Some c) =
              Inl (Panic (''Unknown service access cope: '' @
                          jm_AccessScope (spec_JobManagerSpec (Spec c))))"
    using jm_service_ok [OF 1 2] jm_service_panic [OF 1 2]
      state_unknown_scope [OF 1 2, of jmOrder tmOrder]
    by simp
qed

theorem access_scope_mapping_witness:
  "(\<exists>svc. getDesiredJobManagerService sample_cluster = Inr (Some svc) \<and>
          ss_Type (s_Spec svc) = ''ClusterIP'' \<and> om_Annotations (s_ObjectMeta svc) = Map.empty) \<and>
   (\<exists>svc. getDesiredJobManagerService (with_scope ''VPC'' sample_cluster) = Inr (Some svc) \<and>
          ss_Type (s_Spec svc) = ''LoadBalancer'' \<and>
          om_Annotations (s_ObjectMeta svc) ''cloud.google.com/load-balancer-type'' = Some ''Internal'') \<and>
   (\<exists>svc. getDesiredJobManagerService (with_scope ''External'' sample_cluster) = Inr (Some svc) \<and>
          ss_Type (s_Spec svc) = ''LoadBalancer'' \<and> om_Annotations (s_ObjectMeta svc) = Map.empty) \<and>
   getDesiredJobManagerService (with_scope ''NodePort'' sample_cluster) =
     Inl (Panic ''Unknown service access cope: NodePort'') \<and>
   getDesiredClusterState [] [] (Some (with_scope ''NodePort'' sample_cluster)) =
     Inl (Panic ''Unknown service access cope: NodePort'')"
proof -
  have run: "\<not> stopping_or_stopped (with_scope x sample_cluster) \<and> jm_ports_set (with_scope x sample_cluster)"
    for x
    by (simp add: sample_defs constant_defs field_defs)
  have same: "with_scope ''Cluster'' sample_cluster = sample_cluster"
    by (simp add: sample_defs)
  have known: "known_scope (with_scope ''Cluster'' sample_cluster)"
    "known_scope (with_scope ''VPC'' sample_cluster)"
    "known_scope (with_scope ''External'' sample_cluster)"
    "\<not> known_scope (with_scope ''NodePort'' sample_cluster)"
    by (simp_all add: sample_defs constant_defs field_defs)
  have scope: "jm_AccessScope (spec_JobManagerSpec (Spec (with_scope x sample_cluster))) = x" for x
    by (simp add: sample_defs)
  note m = access_scope_mapping [of "with_scope x sample_cluster" "[]" "[]" for x]
  from m [of "''Cluster''"] run known(1) have
    "\<exists>svc. getDesiredJobManagerService (with_scope ''Cluster'' sample_cluster) = Inr (Some svc) \<and>
          ss_Type (s_Spec svc) = ''ClusterIP'' \<and> om_Annotations (s_ObjectMeta svc) = Map.empty"
    by (auto simp: scope constant_defs)
  moreover from m [of "''VPC''"] run known(2) have
    "\<exists>svc. getDesiredJobManagerService (with_scope ''VPC'' sample_cluster) = Inr (Some svc) \<and>
          ss_Type (s_Spec svc) = ''LoadBalancer'' \<and>
          om_Annotations (s_ObjectMeta svc) ''cloud.google.com/load-balancer-type'' = Some ''Internal''"
    by (auto simp: scope constant_defs)
  moreover from m [of "''External''"] run known(3) have
    "\<exists>svc. getDesiredJobManagerService (with_scope ''External'' sample_cluster) = Inr (Some svc) \<and>
          ss_Type (s_Spec svc) = ''LoadBalancer'' \<and> om_Annotations (s_ObjectMeta svc) = Map.empty"
    by (auto simp: scope constant_defs)
  moreover from m [of "''NodePort''"] run known(4) have
    "getDesiredJobManagerService (with_scope ''NodePort'' sample_cluster) =
       Inl (Panic ''Unknown service access cope: NodePort'') \<and>
     getDesiredClusterState [] [] (Some (with_scope ''NodePort'' sample_cluster)) =
       Inl (Panic ''Unknown service access cope: NodePort'')"
    by (simp add: scope)
  ultimately show ?thesis by (simp add: same)
qed

text \<open>
  C10, as the code has it. The converter reads the optional fields only where it builds
  a resource. For a present cluster in a phase other than Stopping and Stopped it returns
  a desired state exactly when the four manager ports, the three worker ports and, with a
  JobSpec, the restart policy are set and the access scope is known; with all manager
  ports set and an unknown scope it ends in the access scope panic; in every other case it
  ends in a nil pointer dereference. For a cluster in phase Stopping or Stopped the
  deployments and the service are not built and none of their ports is read: the
  converter returns unless there is a JobSpec and the manager UI port or the restart
  policy is unset, and then it ends in a nil pointer dereference.
\<close>

theorem converter_totality:
  "(\<not> stopping_or_stopped c \<longrightarrow>
      (if jm_ports_set c \<and> tm_ports_set c \<and> restart_policy_set c \<and> known_scope c
       then \<exists>d. getDesiredClusterState jmOrder tmOrder (Some c) = Inr d
       else if jm_ports_set c \<and> \<not> known_scope c
       then getDesiredClusterState jmOrder tmOrder (Some c) =
              Inl (Panic (''Unknown service access cope: '' @
                          jm_AccessScope (spec_JobManagerSpec (Spec c))))
       else getDesiredClusterState jmOrder tmOrder (Some c) = Inl NilPointerDereference)) \<and>
   (stopping_or_stopped c \<longrightarrow>
      (if spec_JobSpec (Spec c) = None \<or> (ui_port_set c \<and> restart_policy_set c)
       then \<exists>d. getDesiredClusterState jmOrder tmOrder (Some c) = Inr d
       else getDesiredClusterState jmOrder tmOrder (Some c) = Inl NilPointerDereference))"
proof (cases "stopping_or_stopped c")
  case True
  show ?thesis
  proof (cases "spec_JobSpec (Spec c) = None \<or> (ui_port_set c \<and> restart_policy_set c)")
    case ok: True
    from job_ok [OF ok] obtain r where "getDesiredJob c = Inr r" ..
    with True ok show ?thesis by (simp add: state_stopped bind_abort_def)
  next
    case bad: False
    then have "getDesiredJob c = Inl NilPointerDereference"
      by (intro job_nil) auto
    with True bad show ?thesis by (simp add: state_stopped bind_abort_def)
  qed
next
  case False
  have ui: "jm_ports_set c \<Longrightarrow> ui_port_set c"
    by (simp add: jm_ports_set_def ui_port_set_def Let_def)
  have rp: "spec_JobSpec (Spec c) = None \<Longrightarrow> restart_policy_set c"
    by (simp add: restart_policy_set_def)
  show ?thesis
  proof (cases "jm_ports_set c")
    case nojm: False
    from jm_deployment_nil [OF False nojm, of jmOrder] False nojm show ?thesis
      by (simp add: getDesiredClusterState_def bind_abort_def)
  next
    case jm: True
    from jm_deployment_ok [OF False jm, of jmOrder]
    obtain d where d: "getDesiredJobManagerDeployment jmOrder c = Inr (Some d)" ..
    show ?thesis
    proof (cases "known_scope c")
      case unknown: False
      from jm_service_panic [OF False jm unknown] d False jm unknown show ?thesis
        by (simp add: getDesiredClusterState_def bind_abort_def)
    next
      case known: True
      from jm_service_ok [OF False jm known]
      obtain sv where sv: "getDesiredJobManagerService c = Inr (Some sv)" ..
      show ?thesis
      proof (cases "tm_ports_set c")
        case notm: False
        from tm_deployment_nil [OF False notm, of tmOrder] d sv False jm known notm show ?thesis
          by (simp add: getDesiredClusterState_def bind_abort_def)
      next
        case tm: True
        from tm_deployment_ok [OF False tm, of tmOrder]
        obtain t where t: "getDesiredTaskManagerDeployment tmOrder c = Inr (Some t)" ..
        show ?thesis
        proof (cases "restart_policy_set c")
          case norp: False
          then have "spec_JobSpec (Spec c) \<noteq> None" using rp by blast
          then have "getDesiredJob c = Inl NilPointerDereference"
            using norp by (intro job_nil) auto
          with d sv t False jm known tm norp show ?thesis
            by (simp add: getDesiredClusterState_def bind_abort_def)
        next
          case rpset: True
          with ui [OF jm] have "spec_JobSpec (Spec c) = None \<or> (ui_port_set c \<and> restart_policy_set c)"
            by simp
          from job_ok [OF this] obtain r where "getDesiredJob c = Inr r" ..
          with d sv t False jm known tm rpset show ?thesis
            by (simp add: getDesiredClusterState_def bind_abort_def)
        qed
      qed
    qed
  qed
qed

theorem converter_totality_witness:
  "(\<exists>d. getDesiredClusterState [] [] (Some sample_cluster) = Inr d) \<and>
   getDesiredClusterState [] [] (Some (with_scope ''NodePort'' sample_cluster)) =
     Inl (Panic ''Unknown service access cope: NodePort'') \<and>
   getDesiredClusterState [] []
     (Some (with_tm_ports \<lparr>tmp_Data = Some 6121, tmp_RPC = None, tmp_Query = Some 6125\<rparr>
              sample_cluster)) = Inl NilPointerDereference \<and>
   getDesiredClusterState [] []
     (Some (with_job (Some (sample_job\<lparr>job_RestartPolicy := None\<rparr>)) sample_cluster)) =
     Inl NilPointerDereference \<and>
   (\<exists>d. getDesiredClusterState [] []
          (Some (with_state ''Stopping''
             (with_tm_ports \<lparr>tmp_Data = None, tmp_RPC = None, tmp_Query = None\<rparr> sample_cluster))) =
        Inr d) \<and>
   getDesiredClusterState [] []
     (Some (with_state ''Stopped''
        (with_job (Some (sample_job\<lparr>job_RestartPolicy := None\<rparr>)) sample_cluster))) =
     Inl NilPointerDereference"
  using converter_totality [of sample_cluster "[]" "[]"]
    converter_totality [of "with_scope ''NodePort'' sample_cluster" "[]" "[]"]
    converter_totality [of "with_tm_ports \<lparr>tmp_Data = Some 6121, tmp_RPC = None, tmp_Query = Some 6125\<rparr>
              sample_cluster" "[]" "[]"]
    converter_totality [of "with_job (Some (sample_job\<lparr>job_RestartPolicy := None\<rparr>)) sample_cluster" "[]" "[]"]
    converter_totality [of "with_state ''Stopping''
             (with_tm_ports \<lparr>tmp_Data = None, tmp_RPC = None, tmp_Query = None\<rparr> sample_cluster)" "[]" "[]"]
    converter_totality [of "with_state ''Stopped''
        (with_job (Some (sample_job\<lparr>job_RestartPolicy := None\<rparr>)) sample_cluster)" "[]" "[]"]
  by (simp add: sample_defs constant_defs field_defs)

text \<open>
  The claim as stated (any unset port or restart policy makes the converter abort) fails
  on a session cluster in phase Stopped none of whose ports is set: the converter returns
  the empty desired state.
\<close>

theorem converter_totality_counterexample:
  "\<not> jm_ports_set (with_state ''Stopped'' (with_job None
        (with_jm_ports \<lparr>jmp_RPC = None, jmp_Blob = None, jmp_Query = None, jmp_UI = None\<rparr>
          (with_tm_ports \<lparr>tmp_Data = None, tmp_RPC = None, tmp_Query = None\<rparr> sample_cluster)))) \<and>
   \<not> tm_ports_set (with_state ''Stopped'' (with_job None
        (with_jm_ports \<lparr>jmp_RPC = None, jmp_Blob = None, jmp_Query = None, jmp_UI = None\<rparr>
          (with_tm_ports \<lparr>tmp_Data = None, tmp_RPC = None, tmp_Query = None\<rparr> sample_cluster)))) \<and>
   getDesiredClusterState [''taskmanager.numberOfTaskSlots''] [''taskmanager.numberOfTaskSlots'']
     (Some (with_state ''Stopped'' (with_job None
        (with_jm_ports \<lparr>jmp_RPC = None, jmp_Blob = None, jmp_Query = None, jmp_UI = None\<rparr>
          (with_tm_ports \<lparr>tmp_Data = None, tmp_RPC = None, tmp_Query = None\<rparr> sample_cluster))))) =
   Inr \<lparr>JmDeployment = None, JmService = None, TmDeployment = None, Job = None\<rparr>"
  by (simp add: converter_defs sample_defs constant_defs field_defs)

section \<open>Claims about the observer\<close>

text \<open>
  C5. When the query for the job pods is made and returns two or more pods, \<open>observe\<close>
  returns an error (the one built for this case) and leaves \<open>jobPod\<close> unset.
\<close>

theorem more_than_one_job_pod:
  assumes "r = observe obs zero_ObservedClusterState"
    and "ListJobPods \<in> set (calls r)"
    and "observeJobPods obs = Inr pods"
    and "2 \<le> length pods"
  shows "outcome r = Returned (Some MoreThanOneJobPod) \<and> jobPod (observed r) = None"
proof (cases obs rule: observe_zero_cases)
  case (cluster_failed e)
  with assms(1,2) show ?thesis by simp
next
  case (jm_failed e)
  with assms(1,2) show ?thesis by simp
next
  case (service_failed e)
  with assms(1,2) show ?thesis by simp
next
  case (tm_failed e)
  with assms(1,2) show ?thesis by (simp add: component_calls_def)
next
  case no_job
  with assms(1,2) show ?thesis by (simp add: component_calls_def)
next
  case (job_failed c e)
  with assms(1,2) show ?thesis by (simp add: component_calls_def)
next
  case (pods_failed c e)
  with assms(3) show ?thesis by (simp add: failure_def)
next
  case (many_pods c pods')
  with assms(1) show ?thesis by (simp add: observed_components_def)
next
  case (id_section c)
  with assms(3,4) show ?thesis by simp
qed

theorem more_than_one_job_pod_witness:
  "ListJobPods \<in> set (calls (observe (sample_observer (Inr sample_cluster)
                                    (Inr [running_pod, second_pod])) zero_ObservedClusterState)) \<and>
   observeJobPods (sample_observer (Inr sample_cluster) (Inr [running_pod, second_pod])) =
     Inr [running_pod, second_pod] \<and>
   outcome (observe (sample_observer (Inr sample_cluster) (Inr [running_pod, second_pod]))
              zero_ObservedClusterState) = Returned (Some MoreThanOneJobPod) \<and>
   jobPod (observed (observe (sample_observer (Inr sample_cluster) (Inr [running_pod, second_pod]))
              zero_ObservedClusterState)) = None"
proof -
  let ?obs = "sample_observer (Inr sample_cluster) (Inr [running_pod, second_pod])"
  have pods: "observeJobPods ?obs = Inr [running_pod, second_pod]"
    by (simp add: observer_defs)
  have made: "ListJobPods \<in> set (calls (observe ?obs zero_ObservedClusterState))"
    by (simp add: observe_def observeJob_def observer_defs sample_defs Let_def)
  from more_than_one_job_pod [OF refl made pods] pods made show ?thesis
    by simp
qed

text \<open>
  C9. An observation from the zero state makes exactly the lookups of the specification:
  the cluster resource, the manager deployment, the manager service and the worker
  deployment, then, if the cluster was found and specifies a job, the job resource and
  the job pods, up to and including the first lookup that returns an error other than
  not-found. For each of these lookups: when it returns not-found, the field it would
  fill is absent in the observed state and \<open>observe\<close> goes on (it makes a further call,
  or it ends returning no error); when it returns any other error, \<open>observe\<close> stops there
  and returns that error. An error \<open>observe\<close> returns is never not-found: it is the error
  of its last lookup, or the error for more than one job pod.
\<close>

theorem not_found_is_absent:
  assumes "r = observe obs zero_ObservedClusterState"
  shows "filter (\<lambda>T. \<not> is_probe T) (calls r) = lookups_made obs \<and>
         (\<forall>T \<in> set (lookups_made obs).
            (lookup_error obs T = Some StatusNotFound \<longrightarrow>
               field_absent T (observed r) \<and>
               (T \<noteq> last (calls r) \<or> outcome r = Returned None)) \<and>
            (\<forall>e. lookup_error obs T = Some e \<and> e \<noteq> StatusNotFound \<longrightarrow>
               outcome r = Returned (Some e) \<and> T = last (calls r))) \<and>
         (\<forall>e. outcome r = Returned (Some e) \<longrightarrow>
            e \<noteq> StatusNotFound \<and>
            (e = MoreThanOneJobPod \<or> lookup_error obs (last (calls r)) = Some e))"
proof (intro conjI ballI allI impI)
  show eq: "filter (\<lambda>T. \<not> is_probe T) (calls r) = lookups_made obs"
    using lookups_made_eq [of obs] by (simp add: assms)
  have made: "T \<in> set (calls r)" if "T \<in> set (lookups_made obs)" for T
    using that eq [symmetric] by simp
  {
    fix T
    assume T: "T \<in> set (lookups_made obs)"
    note h = lookup_handled [OF assms made [OF T]]
    show "field_absent T (observed r)" if "lookup_error obs T = Some StatusNotFound"
      using h that by blast
    show "T \<noteq> last (calls r) \<or> outcome r = Returned None"
      if "lookup_error obs T = Some StatusNotFound"
      using h that by blast
    show "outcome r = Returned (Some e)" if "lookup_error obs T = Some e \<and> e \<noteq> StatusNotFound" for e
      using h that by blast
    show "T = last (calls r)" if "lookup_error obs T = Some e \<and> e \<noteq> StatusNotFound" for e
      using h that by blast
  }
  have "GetCluster \<in> set (lookups_made obs)"
    by (simp add: lookups_simps)
  then have "GetCluster \<in> set (calls r)"
    by (rule made)
  from lookup_handled [OF assms this]
  have nf: "outcome r \<noteq> Returned (Some StatusNotFound)" by blast
  {
    fix e
    assume e: "outcome r = Returned (Some e)"
    from e nf show "e \<noteq> StatusNotFound" by auto
    from e returned_error_origin [of obs e]
    show "e = MoreThanOneJobPod \<or> lookup_error obs (last (calls r)) = Some e"
      by (simp add: assms)
  }
qed

theorem not_found_is_absent_witness:
  "filter (\<lambda>T. \<not> is_probe T)
     (calls (observe (sample_observer (Inr sample_cluster)
                        (Inl (StatusOther ''context deadline exceeded'')))
               zero_ObservedClusterState)) =
     [GetCluster, GetJobManagerDeployment, GetJobManagerService, GetTaskManagerDeployment,
      GetJobResource, ListJobPods] \<and>
   outcome (observe (sample_observer (Inr sample_cluster)
                       (Inl (StatusOther ''context deadline exceeded'')))
              zero_ObservedClusterState) =
     Returned (Some (StatusOther ''context deadline exceeded'')) \<and>
   last (calls (observe (sample_observer (Inr sample_cluster)
                           (Inl (StatusOther ''context deadline exceeded'')))
                  zero_ObservedClusterState)) = ListJobPods \<and>
   filter (\<lambda>T. \<not> is_probe T)
     (calls (observe (with_job_lookup (Inl (StatusOther ''connection refused''))
                        (sample_observer (Inr sample_cluster) (Inr [])))
               zero_ObservedClusterState)) =
     [GetCluster, GetJobManagerDeployment, GetJobManagerService, GetTaskManagerDeployment,
      GetJobResource] \<and>
   outcome (observe (with_job_lookup (Inl (StatusOther ''connection refused''))
                       (sample_observer (Inr sample_cluster) (Inr [])))
              zero_ObservedClusterState) =
     Returned (Some (StatusOther ''connection refused'')) \<and>
   filter (\<lambda>T. \<not> is_probe T)
     (calls (observe (with_job_lookup (Inl StatusNotFound)
                        (sample_observer (Inr sample_cluster) (Inl StatusNotFound)))
               zero_ObservedClusterState)) =
     [GetCluster, GetJobManagerDeployment, GetJobManagerService, GetTaskManagerDeployment,
      GetJobResource, ListJobPods] \<and>
   job (observed (observe (with_job_lookup (Inl StatusNotFound)
                             (sample_observer (Inr sample_cluster) (Inl StatusNotFound)))
                    zero_ObservedClusterState)) = None \<and>
   jobPod (observed (observe (with_job_lookup (Inl StatusNotFound)
                                (sample_observer (Inr sample_cluster) (Inl StatusNotFound)))
                       zero_ObservedClusterState)) = None \<and>
   filter (\<lambda>T. \<not> is_probe T) (calls (observe empty_observer zero_ObservedClusterState)) =
     [GetCluster, GetJobManagerDeployment, GetJobManagerService, GetTaskManagerDeployment]"
proof -
  let ?A = "sample_observer (Inr sample_cluster) (Inl (StatusOther ''context deadline exceeded''))"
  let ?B = "with_job_lookup (Inl (StatusOther ''connection refused''))
              (sample_observer (Inr sample_cluster) (Inr []))"
  let ?C = "with_job_lookup (Inl StatusNotFound)
              (sample_observer (Inr sample_cluster) (Inl StatusNotFound))"
  have lA: "lookups_made ?A =
      [GetCluster, GetJobManagerDeployment, GetJobManagerService, GetTaskManagerDeployment,
       GetJobResource, ListJobPods]"
    by (simp add: lookups_simps observer_defs sample_defs)
  have lB: "lookups_made ?B =
      [GetCluster, GetJobManagerDeployment, GetJobManagerService, GetTaskManagerDeployment,
       GetJobResource]"
    by (simp add: lookups_simps observer_defs sample_defs with_job_lookup_def)
  have lC: "lookups_made ?C =
      [GetCluster, GetJobManagerDeployment, GetJobManagerService, GetTaskManagerDeployment,
       GetJobResource, ListJobPods]"
    by (simp add: lookups_simps observer_defs sample_defs with_job_lookup_def)
  have lE: "lookups_made empty_observer =
      [GetCluster, GetJobManagerDeployment, GetJobManagerService, GetTaskManagerDeployment]"
    by (simp add: lookups_simps observer_defs)
  have eA: "lookup_error ?A ListJobPods = Some (StatusOther ''context deadline exceeded'') \<and>
            StatusOther ''context deadline exceeded'' \<noteq> StatusNotFound"
    by (simp add: observer_defs)
  have eB: "lookup_error ?B GetJobResource = Some (StatusOther ''connection refused'') \<and>
            StatusOther ''connection refused'' \<noteq> StatusNotFound"
    by (simp add: observer_defs with_job_lookup_def)
  have eC: "lookup_error ?C GetJobResource = Some StatusNotFound"
    "lookup_error ?C ListJobPods = Some StatusNotFound"
    by (simp_all add: observer_defs with_job_lookup_def)
  have mA: "ListJobPods \<in> set (lookups_made ?A)" by (simp add: lA)
  have mB: "GetJobResource \<in> set (lookups_made ?B)" by (simp add: lB)
  have mC: "GetJobResource \<in> set (lookups_made ?C)" "ListJobPods \<in> set (lookups_made ?C)"
    by (simp_all add: lC)
  note tA = not_found_is_absent [OF refl, of ?A]
  note tB = not_found_is_absent [OF refl, of ?B]
  note tC = not_found_is_absent [OF refl, of ?C]
  note tE = not_found_is_absent [OF refl, of empty_observer]
  note a1 = tA [THEN conjunct1, unfolded lA]
  note a2 = bspec [OF tA [THEN conjunct2, THEN conjunct1] mA, THEN conjunct2, THEN spec, THEN mp, OF eA]
  note a3 = a2 [THEN conjunct2, symmetric]
  note b1 = tB [THEN conjunct1, unfolded lB]
  note b2 = bspec [OF tB [THEN conjunct2, THEN conjunct1] mB, THEN conjunct2, THEN spec, THEN mp, OF eB]
  note c1 = tC [THEN conjunct1, unfolded lC]
  from bspec [OF tC [THEN conjunct2, THEN conjunct1] mC(1), THEN conjunct1, THEN mp, OF eC(1),
      THEN conjunct1]
  have c2: "job (observed (observe ?C zero_ObservedClusterState)) = None"
    by (simp only: field_absent.simps)
  from bspec [OF tC [THEN conjunct2, THEN conjunct1] mC(2), THEN conjunct1, THEN mp, OF eC(2),
      THEN conjunct1]
  have c3: "jobPod (observed (observe ?C zero_ObservedClusterState)) = None"
    by (simp only: field_absent.simps)
  note e1 = tE [THEN conjunct1, unfolded lE]
  show ?thesis
    by (intro conjI) (fact a1 a2 [THEN conjunct1] a3 b1 b2 [THEN conjunct1] c1 c2 c3 e1)+
qed

text \<open>
  C4, as the code has it. In an observation from the zero state the prober is called
  if and only if no job identifier is recorded in the status of the observed cluster, the
  manager UI port of the cluster is set, and the job resource, a job pod whose phase is
  neither Pending nor Unknown, and the manager service are all in the observed state;
  the job resource and the service are there exactly when their lookups were made and
  found them, the job pod exactly when the pod query was made and returned one pod. When
  an identifier is recorded the prober is not called, and the observation that reaches
  the pod query and returns without error has that identifier as \<open>flinkJobID\<close>.
\<close>

theorem probe_gating:
  assumes "r = observe obs zero_ObservedClusterState"
  shows "(prober_invoked r \<longleftrightarrow>
            (\<exists>c pod. cluster (observed r) = Some c \<and> recorded_job_id c = None \<and> ui_port_set c \<and>
                      job (observed r) \<noteq> None \<and> jobPod (observed r) = Some pod \<and>
                      pod_started pod \<and> jmService (observed r) \<noteq> None)) \<and>
         (job (observed r) \<noteq> None \<longleftrightarrow>
            GetJobResource \<in> set (calls r) \<and> (\<exists>j. observeJobResource obs = Inr j)) \<and>
         (jobPod (observed r) \<noteq> None \<longleftrightarrow>
            ListJobPods \<in> set (calls r) \<and> (\<exists>pod. observeJobPods obs = Inr [pod])) \<and>
         (jmService (observed r) \<noteq> None \<longleftrightarrow>
            GetJobManagerService \<in> set (calls r) \<and> (\<exists>sv. observeJobManagerService obs = Inr sv)) \<and>
         (\<forall>c i. cluster (observed r) = Some c \<and> recorded_job_id c = Some i \<longrightarrow>
            \<not> prober_invoked r \<and>
            (ListJobPods \<in> set (calls r) \<and> outcome r = Returned None \<longrightarrow>
               flinkJobID (observed r) = Some i))"
proof (cases obs rule: observe_zero_cases)
  case (cluster_failed e)
  with assms show ?thesis
    by (auto simp: prober_invoked_def zero_ObservedClusterState_def)
next
  case (jm_failed e)
  with assms show ?thesis
    by (auto simp: prober_invoked_def zero_ObservedClusterState_def)
next
  case (service_failed e)
  with assms show ?thesis
    by (auto simp: prober_invoked_def zero_ObservedClusterState_def failure_Some_iff)
next
  case (tm_failed e)
  with assms show ?thesis
    by (auto simp: prober_invoked_def zero_ObservedClusterState_def component_calls_def
        found_def split: sum.splits)
next
  case no_job
  with assms show ?thesis
    by (auto simp: prober_invoked_def observed_components_def component_calls_def
        found_def split: sum.splits)
next
  case (job_failed c e)
  with assms show ?thesis
    by (auto simp: prober_invoked_def observed_components_def component_calls_def
        failure_Some_iff found_def split: sum.splits)
next
  case (pods_failed c e)
  with assms show ?thesis
    by (auto simp: prober_invoked_def observed_components_def component_calls_def job_calls_def
        failure_Some_iff found_def split: sum.splits)
next
  case (many_pods c pods)
  with assms show ?thesis
    by (auto simp: prober_invoked_def observed_components_def component_calls_def job_calls_def
        found_def split: sum.splits)
next
  case (id_section c)
  let ?j = "found (observeJobResource obs)"
  let ?r = "observeFlinkJobID obs c ?j (observed_job obs) job_calls"
  from id_section assms have r: "r = ?r" by simp
  have fields: "cluster (observed r) = Some c"
    "jmService (observed r) = found (observeJobManagerService obs)"
    "job (observed r) = ?j"
    "jobPod (observed r) = (case found (observeJobPods obs) of Some [pod] \<Rightarrow> Some pod | _ \<Rightarrow> None)"
    using id_section(5) by (simp_all add: r id_frame observed_job_def observed_components_def)
  have state: "jobPod (observed_job obs) = jobPod (observed r)"
    "jmService (observed_job obs) = jmService (observed r)"
    by (simp_all add: r id_frame)
  have quiet: "\<not> list_ex is_probe job_calls"
    by (simp add: job_calls_def component_calls_def)
  have probe: "prober_invoked r \<longleftrightarrow>
      recorded_job_id c = None \<and> ui_port_set c \<and> job (observed r) \<noteq> None \<and>
      (\<exists>pod. jobPod (observed r) = Some pod \<and> pod_started pod) \<and> jmService (observed r) \<noteq> None"
    using id_probe_iff [OF quiet, of obs c ?j "observed_job obs"]
    by (simp add: r [symmetric] state fields(3))
  have made: "GetJobResource \<in> set (calls r)" "ListJobPods \<in> set (calls r)"
    "GetJobManagerService \<in> set (calls r)"
    using id_calls [of obs c ?j "observed_job obs" job_calls]
    by (auto simp: r job_calls_def component_calls_def)
  have job: "job (observed r) \<noteq> None \<longleftrightarrow> (\<exists>j. observeJobResource obs = Inr j)"
    by (auto simp: fields found_def split: sum.splits)
  have svc: "jmService (observed r) \<noteq> None \<longleftrightarrow> (\<exists>sv. observeJobManagerService obs = Inr sv)"
    by (auto simp: fields found_def split: sum.splits)
  have pod: "jobPod (observed r) \<noteq> None \<longleftrightarrow> (\<exists>pod. observeJobPods obs = Inr [pod])"
    by (auto simp: fields found_def split: sum.splits option.splits list.splits)
  have reuse: "flinkJobID (observed r) = Some i" if "recorded_job_id c = Some i" for i
    using id_recorded [OF that, of obs ?j "observed_job obs" job_calls] by (simp add: r)
  show ?thesis
    using probe made job svc pod reuse fields(1) by auto
qed

theorem probe_gating_witness:
  "prober_invoked (observe (sample_observer (Inr sample_cluster) (Inr [running_pod]))
                     zero_ObservedClusterState) \<and>
   flinkJobID (observed (observe (sample_observer (Inr sample_cluster) (Inr [running_pod]))
                     zero_ObservedClusterState)) = Some ''4f2a'' \<and>
   \<not> prober_invoked (observe (sample_observer (Inr (with_job_id ''a1b2c3'' sample_cluster))
                                (Inr [running_pod])) zero_ObservedClusterState) \<and>
   flinkJobID (observed (observe (sample_observer (Inr (with_job_id ''a1b2c3'' sample_cluster))
                                (Inr [running_pod])) zero_ObservedClusterState)) = Some ''a1b2c3'' \<and>
   \<not> prober_invoked (observe (sample_observer (Inr sample_cluster)
                                (Inr [sample_pod ''flinkjobcluster-sample-job-x7k2p'' ''Pending'']))
                        zero_ObservedClusterState)"
proof -
  let ?fresh = "observe (sample_observer (Inr sample_cluster) (Inr [running_pod]))
                     zero_ObservedClusterState"
  let ?known = "observe (sample_observer (Inr (with_job_id ''a1b2c3'' sample_cluster))
                                (Inr [running_pod])) zero_ObservedClusterState"
  let ?pending = "observe (sample_observer (Inr sample_cluster)
                                (Inr [sample_pod ''flinkjobcluster-sample-job-x7k2p'' ''Pending'']))
                        zero_ObservedClusterState"
  have fresh: "observed ?fresh =
      \<lparr>cluster = Some sample_cluster,
       jmDeployment = Some (sample_deployment ''flinkjobcluster-sample-jobmanager''),
       jmService = Some sample_service,
       tmDeployment = Some (sample_deployment ''flinkjobcluster-sample-taskmanager''),
       job = Some sample_batch_job, jobPod = Some running_pod, flinkJobID = Some ''4f2a''\<rparr>"
    by (simp add: observe_def observeJob_def observeFlinkJobID_def getFlinkJobID_def
        observer_defs sample_defs zero_defs constant_defs deref_def Let_def)
  have known: "observed ?known =
      \<lparr>cluster = Some (with_job_id ''a1b2c3'' sample_cluster),
       jmDeployment = Some (sample_deployment ''flinkjobcluster-sample-jobmanager''),
       jmService = Some sample_service,
       tmDeployment = Some (sample_deployment ''flinkjobcluster-sample-taskmanager''),
       job = Some sample_batch_job, jobPod = Some running_pod, flinkJobID = Some ''a1b2c3''\<rparr>"
    by (simp add: observe_def observeJob_def observeFlinkJobID_def getFlinkJobID_def
        observer_defs sample_defs zero_defs constant_defs deref_def Let_def)
  have pending: "observed ?pending =
      \<lparr>cluster = Some sample_cluster,
       jmDeployment = Some (sample_deployment ''flinkjobcluster-sample-jobmanager''),
       jmService = Some sample_service,
       tmDeployment = Some (sample_deployment ''flinkjobcluster-sample-taskmanager''),
       job = Some sample_batch_job,
       jobPod = Some (sample_pod ''flinkjobcluster-sample-job-x7k2p'' ''Pending''),
       flinkJobID = None\<rparr>"
    by (simp add: observe_def observeJob_def observeFlinkJobID_def getFlinkJobID_def
        observer_defs sample_defs zero_defs constant_defs deref_def Let_def)
  have facts: "recorded_job_id sample_cluster = None" "ui_port_set sample_cluster"
    "recorded_job_id (with_job_id ''a1b2c3'' sample_cluster) = Some ''a1b2c3''"
    "pod_started running_pod"
    "\<not> pod_started (sample_pod ''flinkjobcluster-sample-job-x7k2p'' ''Pending'')"
    by (simp_all add: recorded_job_id_def ui_port_set_def pod_started_def sample_defs
        observer_defs constant_defs)
  from probe_gating [OF refl, of "sample_observer (Inr sample_cluster) (Inr [running_pod])"]
  have 1: "prober_invoked ?fresh"
    by (simp add: fresh facts)
  from probe_gating [OF refl, of "sample_observer (Inr (with_job_id ''a1b2c3'' sample_cluster))
                                (Inr [running_pod])"]
  have 2: "\<not> prober_invoked ?known"
    by (simp add: known facts)
  from probe_gating [OF refl, of "sample_observer (Inr sample_cluster)
                                (Inr [sample_pod ''flinkjobcluster-sample-job-x7k2p'' ''Pending''])"]
  have 3: "\<not> prober_invoked ?pending"
    by (simp add: pending facts)
  from 1 2 3 show ?thesis by (simp add: fresh known)
qed

text \<open>
  The claim as stated fails on the sample cluster with no UI port: the job resource, one
  running job pod and the manager service are all found and no identifier is recorded,
  yet the prober is not called, for \<open>observe\<close> aborts with a nil pointer dereference
  while it builds the URL.
\<close>

theorem probe_gating_counterexample:
  "observeJobResource (sample_observer (Inr nil_ui_cluster) (Inr [running_pod])) =
     Inr sample_batch_job \<and>
   observeJobPods (sample_observer (Inr nil_ui_cluster) (Inr [running_pod])) = Inr [running_pod] \<and>
   pst_Phase (p_Status running_pod) = ''Running'' \<and>
   observeJobManagerService (sample_observer (Inr nil_ui_cluster) (Inr [running_pod])) =
     Inr sample_service \<and>
   recorded_job_id nil_ui_cluster = None \<and>
   \<not> prober_invoked (observe (sample_observer (Inr nil_ui_cluster) (Inr [running_pod]))
                        zero_ObservedClusterState) \<and>
   outcome (observe (sample_observer (Inr nil_ui_cluster) (Inr [running_pod]))
              zero_ObservedClusterState) = Aborted NilPointerDereference \<and>
   calls (observe (sample_observer (Inr nil_ui_cluster) (Inr [running_pod]))
              zero_ObservedClusterState) = job_calls"
  by (simp add: observe_def observeJob_def observeFlinkJobID_def getFlinkJobID_def
      observer_defs sample_defs zero_defs constant_defs deref_def Let_def prober_invoked_def
      recorded_job_id_def job_calls_def component_calls_def)

end
